theory Spec2Isabelle
  imports Main "HOL-Library.Sublist"
begin

section \<open>The backup pipeline of index.js\<close>

text \<open>
  The module runs \<open>mongodump\<close>, packs the dump with \<open>tar\<close>, uploads the archive to S3
  and removes its scratch files. Every function of the module takes a node-style
  callback; the embedding writes each of them in direct style, as a function from the
  state of the world to the value its callback receives and the world after it.

  What the module cannot decide (the exit of a child process, the answer of the
  storage client, the clock, the temporary directory) is read from an environment
  \<open>env\<close>, and every theorem holds for all environments.
\<close>

subsection \<open>Values\<close>

type_synonym path = string

text \<open>A JavaScript \<open>Error\<close> object, by its message.\<close>

datatype error = Error string

text \<open>The caller's S3 configuration object; \<open>destination\<close> may be missing.\<close>

record s3_options =
  key :: string
  secret :: string
  bucket :: string
  destination :: "string option"
  encrypt :: bool

text \<open>The options object handed to the \<open>MultiPartUpload\<close> constructor.\<close>

record mpu_request =
  client :: s3_options
  objectName :: string
  headers :: "(string \<times> string) list"
  sourceFile :: path
  partSize :: nat
  maxRetries :: nat

text \<open>
  What the module does to the outside, in the order it does it: calls of \<open>log\<close>
  (tag, message), \<open>fs.exists\<close>, \<open>exec\<close>, \<open>spawn\<close> (command, arguments, working
  directory), \<open>d.exit\<close>, \<open>knox.createClient\<close>, \<open>new MultiPartUpload\<close>, the job's own
  callback, and an exception that nothing catches.
\<close>

datatype event =
    Log string string
  | FsExists path
  | Exec string
  | Spawn string "string list" "path option"
  | DomainExit
  | CreateClient s3_options
  | MultiPartUpload mpu_request
  | Callback "error option"
  | Throw error

text \<open>
  The value a task hands to its callback: \<open>Called None\<close> is \<open>callback(null)\<close>,
  \<open>Called (Some e)\<close> is \<open>callback(e)\<close>, and \<open>Unanswered\<close> is a task whose callback is
  never invoked.
\<close>

datatype outcome = Called "error option" | Unanswered

subsection \<open>The environment\<close>

datatype stream = Stdout | Stderr

text \<open>
  One run of a child process: the chunks it writes, in order, its exit code (\<open>None\<close>
  is the \<open>null\<close> node reports for a process killed by a signal), and what it does to
  the file system. Every child process is taken to start and to exit, and \<open>fs.exists\<close>
  and \<open>exec\<close> always invoke their callbacks; only the upload may stay silent.
\<close>

record proc_result =
  chunks :: "(stream \<times> string) list"
  exit_code :: "int option"
  fs_effect :: "path list \<Rightarrow> path list"

text \<open>
  One run of \<open>rm -rf\<close>: it exits with status 0, or \<open>exec\<close> reports an error and the
  environment says which files are left.
\<close>

datatype rm_result = RmExit0 | RmFailed error "path list \<Rightarrow> path list"

text \<open>
  The storage client's answer to one upload: the callback of \<open>MultiPartUpload\<close> is
  invoked with an error, or with \<open>null\<close> and a body (here the body's JSON text), or never.
\<close>

datatype upload_reply = Reply "error option" string | NoReply

record env =
  path_join :: "string \<Rightarrow> string \<Rightarrow> string"
  os_tmpDir :: path
  getFullYear :: int
  getMonth :: int
  getDate :: int
  getTime :: int
  rm_results :: "nat \<Rightarrow> rm_result"
  shell_rm :: "string \<Rightarrow> path list \<Rightarrow> path list"
  spawn_result :: "string \<Rightarrow> string list \<Rightarrow> proc_result"
  upload_result :: upload_reply
  upload_fault :: "error option"

text \<open>
  \<open>rm_results env n\<close> is the result of the \<open>n\<close>-th call of \<open>exec\<close> (counted from 0).
  \<open>shell_rm env text fs\<close> are the files left by a run of \<open>rm -rf\<close> followed by \<open>text\<close> that
  exits with 0, for a text that the shell does not read as one plain word.
  \<open>upload_fault env\<close> is an error that the upload raises outside its callback (the
  \<open>EPIPE\<close> of the comment in \<open>sync\<close>), if it raises one.
\<close>

subsection \<open>The world\<close>

type_synonym ref = nat

text \<open>
  The paths that exist, the events so far, the number of \<open>exec\<close> calls so far, the
  configuration objects by reference (\<open>sendToS3\<close> changes the object it is given),
  and an error raised inside the domain \<open>d\<close> that has not reached its handler yet.
\<close>

record world =
  files :: "path list"
  trace :: "event list"
  execs :: nat
  heap :: "ref \<Rightarrow> s3_options"
  raised :: "error option"

definition emit :: "event \<Rightarrow> world \<Rightarrow> world" where
  "emit e w = w\<lparr>trace := trace w @ [e]\<rparr>"

text \<open>
  \<open>log(message, tag)\<close>: a missing tag (here the empty string) is \<open>'info'\<close>. The
  colouring and the trimming of the printed line are left to the logger.
\<close>

definition log :: "string \<Rightarrow> string \<Rightarrow> world \<Rightarrow> world" where
  "log message tag w = emit (Log (if tag = [] then ''info'' else tag) message) w"

subsection \<open>removeRF\<close>

text \<open>
  \<open>removeRF\<close> pastes the target into the command line unquoted. A target made of
  letters, digits, slashes, underscores, dots and hyphens, and not starting with a
  hyphen, reaches \<open>rm\<close> as the one path it is; then a run that exits with 0 has removed
  the target and every path under it. Any other target (with a space, a quote, a
  \<open>$\<close>, a \<open>*\<close>, ...) is split or expanded by the shell, and what a run that exits with
  0 has removed is left to the environment.
\<close>

definition plain_char :: "char \<Rightarrow> bool" where
  "plain_char c =
     (c \<in> set ''abcdefghijklmnopqrstuvwxyzABCDEFGHIJKLMNOPQRSTUVWXYZ0123456789/_.-'')"

definition plain_word :: "path \<Rightarrow> bool" where
  "plain_word target =
     (case target of [] \<Rightarrow> False | c # cs \<Rightarrow> c \<noteq> CHR ''-'' \<and> list_all plain_char target)"

definition under :: "path \<Rightarrow> path \<Rightarrow> bool" where
  "under target p = (p = target \<or> take (Suc (length target)) p = target @ ''/'')"

definition rm_rf :: "path \<Rightarrow> path list \<Rightarrow> path list" where
  "rm_rf target fs = filter (\<lambda>p. \<not> under target p) fs"

text \<open>\<open>exec('rm -rf ' + target, callback)\<close>.\<close>

definition exec_rm_rf :: "env \<Rightarrow> path \<Rightarrow> world \<Rightarrow> outcome \<times> world" where
  "exec_rm_rf env target w =
     (let w1 = (emit (Exec (''rm -rf '' @ target)) w)\<lparr>execs := Suc (execs w)\<rparr>
      in case rm_results env (execs w) of
           RmExit0 \<Rightarrow>
             (Called None,
              w1\<lparr>files := (if plain_word target then rm_rf target (files w1)
                           else shell_rm env target (files w1))\<rparr>)
         | RmFailed e left \<Rightarrow> (Called (Some e), w1\<lparr>files := left (files w1)\<rparr>))"

definition removeRF :: "env \<Rightarrow> path \<Rightarrow> world \<Rightarrow> outcome \<times> world" where
  "removeRF env target w =
     (let w1 = emit (FsExists target) w
      in if target \<notin> set (files w1) then (Called None, w1)
         else exec_rm_rf env target (log (''Removing '' @ target) ''info'' w1))"

subsection \<open>Numbers as text\<close>

text \<open>
  JavaScript's \<open>+\<close> and \<open>join\<close> turn a number into its decimal text; an exit code that is
  \<open>null\<close> becomes \<open>null\<close>.
\<close>

definition digit :: "nat \<Rightarrow> char" where
  "digit n = ''0123456789'' ! n"

function show_nat :: "nat \<Rightarrow> string" where
  "show_nat n = (if n < 10 then [digit n] else show_nat (n div 10) @ [digit (n mod 10)])"
  by pat_completeness auto
termination
  by (relation "measure (\<lambda>n. n)") auto

declare show_nat.simps [simp del]

definition js_number :: "int \<Rightarrow> string" where
  "js_number i = (if i < 0 then ''-'' @ show_nat (nat (- i)) else show_nat (nat i))"

definition js_code :: "int option \<Rightarrow> string" where
  "js_code c = (case c of None \<Rightarrow> ''null'' | Some i \<Rightarrow> js_number i)"

fun js_join :: "string \<Rightarrow> string list \<Rightarrow> string" where
  "js_join sep [] = []"
| "js_join sep [x] = x"
| "js_join sep (x # y # ys) = x @ sep @ js_join sep (y # ys)"

subsection \<open>getArchiveName\<close>

definition getArchiveName :: "env \<Rightarrow> string \<Rightarrow> string" where
  "getArchiveName env databaseName =
     js_join ''_''
       [databaseName,
        js_number (getFullYear env),
        js_number (getMonth env + 1),
        js_number (getDate env),
        js_number (getTime env)]
     @ ''.tar.gz''"

subsection \<open>mongoDump\<close>

text \<open>
  The MongoDB options object. \<open>host\<close>, \<open>port\<close> and \<open>db\<close> are texts (a numeric port is
  its decimal text, which is what \<open>+\<close> makes of it); the other properties may be
  missing.
\<close>

record mongo_options =
  host :: string
  port :: string
  db :: string
  username :: "string option"
  password :: "string option"
  authenticationDatabase :: "string option"
  excludeCollection :: "string list option"

text \<open>A property in the condition of an \<open>if\<close>: missing and the empty text are false.\<close>

definition truthy :: "string option \<Rightarrow> bool" where
  "truthy v = (case v of None \<Rightarrow> False | Some s \<Rightarrow> s \<noteq> [])"

text \<open>The argument list that \<open>mongoDump\<close> builds, one \<open>push\<close> after the other.\<close>

definition mongoOptions :: "mongo_options \<Rightarrow> path \<Rightarrow> string list" where
  "mongoOptions options directory =
     (let a0 = [''-h'', host options @ '':'' @ port options,
                ''-d'', db options,
                ''-o'', directory];
          a1 = (case (username options, password options) of
                  (Some u, Some p) \<Rightarrow>
                    if truthy (Some u) \<and> truthy (Some p)
                    then (((a0 @ [''-u'']) @ [u]) @ [''-p'']) @ [p]
                    else a0
                | _ \<Rightarrow> a0);
          a2 = (case authenticationDatabase options of
                  Some a \<Rightarrow>
                    if truthy (Some a) then (a1 @ [''--authenticationDatabase'']) @ [a] else a1
                | None \<Rightarrow> a1)
      in case excludeCollection options of
           Some cs \<Rightarrow> foldl (\<lambda>acc collection. (acc @ [''--excludeCollection'']) @ [collection]) a2 cs
         | None \<Rightarrow> a2)"

text \<open>
  The listeners on the child's streams: \<open>mongoDump\<close> logs standard output and
  standard error, \<open>compressDirectory\<close> only standard error. The model delivers every
  chunk before the \<open>exit\<close> event.
\<close>

definition dump_chunk :: "stream \<times> string \<Rightarrow> world \<Rightarrow> world" where
  "dump_chunk c w = (case c of (Stdout, data) \<Rightarrow> log data [] w | (Stderr, data) \<Rightarrow> log data ''error'' w)"

definition tar_chunk :: "stream \<times> string \<Rightarrow> world \<Rightarrow> world" where
  "tar_chunk c w = (case c of (Stdout, data) \<Rightarrow> w | (Stderr, data) \<Rightarrow> log data ''error'' w)"

definition mongoDump :: "env \<Rightarrow> mongo_options \<Rightarrow> path \<Rightarrow> world \<Rightarrow> outcome \<times> world" where
  "mongoDump env options directory w =
     (let args = mongoOptions options directory;
          w1 = log (''Starting mongodump of '' @ db options) ''info'' w;
          w2 = emit (Spawn ''mongodump'' args None) w1;
          p = spawn_result env ''mongodump'' args;
          w3 = fold dump_chunk (chunks p) w2;
          w4 = w3\<lparr>files := fs_effect p (files w3)\<rparr>
      in if exit_code p = Some 0
         then (Called None, log ''mongodump executed successfully'' ''info'' w4)
         else (Called (Some (Error (''Mongodump exited with code '' @ js_code (exit_code p)))), w4))"

subsection \<open>compressDirectory\<close>

definition compressDirectory ::
  "env \<Rightarrow> path \<Rightarrow> string \<Rightarrow> string \<Rightarrow> world \<Rightarrow> outcome \<times> world" where
  "compressDirectory env directory inp outp w =
     (let tarOptions = [''-zcf'', outp, inp];
          w1 = log (''Starting compression of '' @ inp @ '' into '' @ outp) ''info'' w;
          w2 = emit (Spawn ''tar'' tarOptions (Some directory)) w1;
          p = spawn_result env ''tar'' tarOptions;
          w3 = fold tar_chunk (chunks p) w2;
          w4 = w3\<lparr>files := fs_effect p (files w3)\<rparr>
      in if exit_code p = Some 0
         then (Called None, log ''successfully compress directory'' ''info'' w4)
         else (Called (Some (Error (''Tar exited with code '' @ js_code (exit_code p)))), w4))"

subsection \<open>sendToS3\<close>

text \<open>
  \<open>options\<close> is a reference: \<open>delete options.destination\<close> changes the caller's object.
  An error that the upload raises outside its callback is recorded in \<open>raised\<close>; the
  task runs inside the domain \<open>d\<close>, whose handler receives it (see \<open>sync\<close>).
\<close>

definition sendToS3 :: "env \<Rightarrow> ref \<Rightarrow> path \<Rightarrow> string \<Rightarrow> world \<Rightarrow> outcome \<times> world" where
  "sendToS3 env options directory target w =
     (let sourceFile = path_join env directory target;
          dest = (case destination (heap w options) of
                    Some d \<Rightarrow> if truthy (Some d) then d else ''/''
                  | None \<Rightarrow> ''/'');
          w1 = w\<lparr>heap := (heap w)(options := (heap w options)\<lparr>destination := None\<rparr>)\<rparr>;
          w2 = emit (CreateClient (heap w1 options)) w1;
          headers = (if encrypt (heap w2 options)
                     then [(''x-amz-server-side-encryption'', ''AES256'')] else []);
          w3 = log (''Attemping to upload '' @ target @ '' to the '' @ bucket (heap w2 options)
                      @ '' s3 bucket'') [] w2;
          w4 = emit (MultiPartUpload
                 \<lparr>client = heap w1 options,
                  objectName = path_join env dest target,
                  headers = headers,
                  sourceFile = sourceFile,
                  partSize = 10485760,
                  maxRetries = 2\<rparr>) w3;
          w5 = w4\<lparr>raised := upload_fault env\<rparr>
      in case upload_result env of
           Reply (Some err) body \<Rightarrow> (Called (Some err), w5)
         | Reply None body \<Rightarrow>
             (Called None, log body [] (log ''Successfully uploaded to s3'' [] w5))
         | NoReply \<Rightarrow> (Unanswered, w5))"

subsection \<open>async.series\<close>

text \<open>
  \<open>async.series(tasks, callback)\<close> of the \<open>async\<close> library: the tasks run one after the
  other; the first error ends the series and is handed to \<open>callback\<close>; after the last
  task \<open>callback\<close> is invoked without an error. The result of \<open>series\<close> is what
  \<open>callback\<close> receives. A task that never invokes its callback leaves the series
  waiting.
\<close>

type_synonym task = "world \<Rightarrow> outcome \<times> world"

fun series :: "task list \<Rightarrow> world \<Rightarrow> outcome \<times> world" where
  "series [] w = (Called None, w)"
| "series (t # ts) w =
     (case t w of
        (Called None, w') \<Rightarrow> series ts w'
      | (Called (Some e), w') \<Rightarrow> (Called (Some e), w')
      | (Unanswered, w') \<Rightarrow> (Unanswered, w'))"

subsection \<open>sync\<close>

definition tmpDir :: "env \<Rightarrow> path" where
  "tmpDir env = path_join env (os_tmpDir env) ''mongodb_s3_backup''"

definition backupDir :: "env \<Rightarrow> mongo_options \<Rightarrow> path" where
  "backupDir env mongodbConfig = path_join env (tmpDir env) (db mongodbConfig)"

definition archiveName :: "env \<Rightarrow> mongo_options \<Rightarrow> string" where
  "archiveName env mongodbConfig = getArchiveName env (db mongodbConfig)"

definition archivePath :: "env \<Rightarrow> mongo_options \<Rightarrow> path" where
  "archivePath env mongodbConfig = path_join env (tmpDir env) (archiveName env mongodbConfig)"

definition tmpDirCleanupFns :: "env \<Rightarrow> mongo_options \<Rightarrow> task list" where
  "tmpDirCleanupFns env mongodbConfig =
     [removeRF env (backupDir env mongodbConfig),
      removeRF env (archivePath env mongodbConfig)]"

text \<open>The stages of the first \<open>async.series\<close> of \<open>sync\<close>.\<close>

definition stages :: "env \<Rightarrow> mongo_options \<Rightarrow> ref \<Rightarrow> task list" where
  "stages env mongodbConfig s3Config =
     tmpDirCleanupFns env mongodbConfig @
     [mongoDump env mongodbConfig (tmpDir env),
      compressDirectory env (tmpDir env) (db mongodbConfig) (archiveName env mongodbConfig),
      sendToS3 env s3Config (tmpDir env) (archiveName env mongodbConfig)]"

text \<open>\<open>log(err, 'error')\<close> prints the error as text.\<close>

definition error_text :: "error \<Rightarrow> string" where
  "error_text e = (case e of Error m \<Rightarrow> ''Error: '' @ m)"

text \<open>
  The callback of the first series: it logs, runs the cleanup series and, whatever
  that series hands to its callback, invokes the job's callback with \<open>err\<close>.
\<close>

definition finish :: "env \<Rightarrow> mongo_options \<Rightarrow> error option \<Rightarrow> world \<Rightarrow> world" where
  "finish env mongodbConfig err w =
     (let w1 = (case err of
                  Some e \<Rightarrow> log (error_text e) ''error'' w
                | None \<Rightarrow> log (''Successfully backed up '' @ db mongodbConfig) [] w)
      in case series (tmpDirCleanupFns env mongodbConfig) w1 of
           (Called r, w2) \<Rightarrow> emit (Callback err) w2
         | (Unanswered, w2) \<Rightarrow> w2)"

text \<open>
  The listener of \<open>d.on('error', ...)\<close>: it leaves the domain, runs the cleanup series
  and throws the error from that series' callback, where nothing catches it.
\<close>

definition on_error :: "env \<Rightarrow> mongo_options \<Rightarrow> error \<Rightarrow> world \<Rightarrow> world" where
  "on_error env mongodbConfig err w =
     (case series (tmpDirCleanupFns env mongodbConfig) (emit DomainExit w) of
        (Called r, w1) \<Rightarrow> emit (Throw err) w1
      | (Unanswered, w1) \<Rightarrow> w1)"

text \<open>
  \<open>sync\<close>. The upload task is the one bound to the domain \<open>d\<close>; an error it raised
  outside its callback reaches the listener of \<open>d\<close>. The model delivers that error
  once the first chain has come to rest (after the job's callback, or with the series
  left waiting); the runs in which it arrives while the cleanup of \<open>finish\<close> is under
  way are not modelled.
\<close>

definition sync :: "env \<Rightarrow> mongo_options \<Rightarrow> ref \<Rightarrow> world \<Rightarrow> world" where
  "sync env mongodbConfig s3Config w =
     (let w2 = (case series (stages env mongodbConfig s3Config) w of
                  (Called err, w1) \<Rightarrow> finish env mongodbConfig err w1
                | (Unanswered, w1) \<Rightarrow> w1)
      in case raised w2 of
           None \<Rightarrow> w2
         | Some e \<Rightarrow> on_error env mongodbConfig e (w2\<lparr>raised := None\<rparr>))"

subsection \<open>Reading a trace\<close>

text \<open>The events between two worlds, and the events of one job.\<close>

definition since :: "world \<Rightarrow> world \<Rightarrow> event list" where
  "since w w' = drop (length (trace w)) (trace w')"

definition run :: "env \<Rightarrow> mongo_options \<Rightarrow> ref \<Rightarrow> world \<Rightarrow> event list" where
  "run env mongodbConfig s3Config w = since w (sync env mongodbConfig s3Config w)"

text \<open>
  The stages that were started: \<open>mongodump\<close> and \<open>tar\<close> by their \<open>spawn\<close>, the upload
  by its \<open>MultiPartUpload\<close>.
\<close>

datatype stage = Dump | Compress | Upload

definition stage_of :: "event \<Rightarrow> stage list" where
  "stage_of e =
     (case e of
        Spawn c a d \<Rightarrow> if c = ''mongodump'' then [Dump] else if c = ''tar'' then [Compress] else []
      | MultiPartUpload r \<Rightarrow> [Upload]
      | _ \<Rightarrow> [])"

definition stages_run :: "event list \<Rightarrow> stage list" where
  "stages_run es = concat (map stage_of es)"

text \<open>What the job's callback was invoked with, each time it was invoked.\<close>

definition callbacks :: "event list \<Rightarrow> error option list" where
  "callbacks es = concat (map (\<lambda>e. case e of Callback x \<Rightarrow> [x] | _ \<Rightarrow> []) es)"

text \<open>The messages logged with the tag \<open>error\<close>.\<close>

definition error_logs :: "event list \<Rightarrow> string list" where
  "error_logs es =
     concat (map (\<lambda>e. case e of Log t m \<Rightarrow> if t = ''error'' then [m] else [] | _ \<Rightarrow> []) es)"

text \<open>The uploads that were requested.\<close>

definition uploads :: "event list \<Rightarrow> mpu_request list" where
  "uploads es = concat (map (\<lambda>e. case e of MultiPartUpload r \<Rightarrow> [r] | _ \<Rightarrow> []) es)"

text \<open>
  The events of one call of \<open>removeRF\<close>: the existence check and, for a path that
  exists, the log line and the \<open>rm -rf\<close>.
\<close>

definition removal_events :: "path \<Rightarrow> world \<Rightarrow> event list" where
  "removal_events target w =
     FsExists target #
     (if target \<in> set (files w)
      then [Log ''info'' (''Removing '' @ target), Exec (''rm -rf '' @ target)]
      else [])"



text \<open>The three optional parts of the argument list of \<open>mongodump\<close>.\<close>

definition credential_args :: "mongo_options \<Rightarrow> string list" where
  "credential_args options =
     (case (username options, password options) of
        (Some u, Some p) \<Rightarrow> if u \<noteq> [] \<and> p \<noteq> [] then [''-u'', u, ''-p'', p] else []
      | _ \<Rightarrow> [])"

definition authentication_args :: "mongo_options \<Rightarrow> string list" where
  "authentication_args options =
     (case authenticationDatabase options of
        Some a \<Rightarrow> if a \<noteq> [] then [''--authenticationDatabase'', a] else []
      | None \<Rightarrow> [])"

definition exclusion_args :: "mongo_options \<Rightarrow> string list" where
  "exclusion_args options =
     (case excludeCollection options of
        Some cs \<Rightarrow> concat (map (\<lambda>c. [''--excludeCollection'', c]) cs)
      | None \<Rightarrow> [])"

text \<open>The exit codes that the environment gives the two child processes of a job.\<close>

definition dump_code :: "env \<Rightarrow> mongo_options \<Rightarrow> int option" where
  "dump_code env mongodbConfig =
     exit_code (spawn_result env ''mongodump'' (mongoOptions mongodbConfig (tmpDir env)))"

definition tar_code :: "env \<Rightarrow> mongo_options \<Rightarrow> int option" where
  "tar_code env mongodbConfig =
     exit_code (spawn_result env ''tar''
       [''-zcf'', archiveName env mongodbConfig, db mongodbConfig])"

text \<open>
  The events of one cleanup series: the removal of the backup directory and, unless
  that removal failed, the removal of the archive.
\<close>

definition cleanup_events :: "env \<Rightarrow> mongo_options \<Rightarrow> world \<Rightarrow> event list" where
  "cleanup_events env mongodbConfig w =
     removal_events (backupDir env mongodbConfig) w @
     (if fst (removeRF env (backupDir env mongodbConfig) w) = Called None
      then removal_events (archivePath env mongodbConfig)
             (snd (removeRF env (backupDir env mongodbConfig) w))
      else [])"

text \<open>The three tasks of \<open>stages\<close> that follow the two removals.\<close>

definition work :: "env \<Rightarrow> mongo_options \<Rightarrow> ref \<Rightarrow> task list" where
  "work env mongodbConfig s3Config =
     [mongoDump env mongodbConfig (tmpDir env),
      compressDirectory env (tmpDir env) (db mongodbConfig) (archiveName env mongodbConfig),
      sendToS3 env s3Config (tmpDir env) (archiveName env mongodbConfig)]"


text \<open>Reading a decimal text back.\<close>

definition digit_val :: "char \<Rightarrow> nat" where
  "digit_val c = of_char c - 48"

definition read_nat :: "string \<Rightarrow> nat" where
  "read_nat s = foldl (\<lambda>a c. 10 * a + digit_val c) 0 s"

definition read_code :: "string \<Rightarrow> int option" where
  "read_code s =
     (if s = ''null'' then None
      else if take 1 s = ''-'' then Some (- int (read_nat (drop 1 s)))
      else Some (int (read_nat s)))"

subsection \<open>An example job\<close>

text \<open>
  A job on 9 March 2014 for the database \<open>shop\<close>, in an environment where \<open>path.join\<close>
  of a directory and a name puts one slash between them, \<open>mongodump\<close> writes the backup
  directory, \<open>tar\<close> writes the archive, and everything succeeds. The theorems below
  vary it field by field.
\<close>

definition example_join :: "string \<Rightarrow> string \<Rightarrow> string" where
  "example_join a b = (if a \<noteq> [] \<and> last a = CHR ''/'' then a @ b else a @ ''/'' @ b)"

text \<open>A shell that splits the text at its spaces and hands every word to \<open>rm\<close>.\<close>

fun split_words :: "string \<Rightarrow> string \<Rightarrow> string list" where
  "split_words acc [] = (if acc = [] then [] else [acc])"
| "split_words acc (c # cs) =
     (if c = CHR '' '' then (if acc = [] then [] else [acc]) @ split_words [] cs
      else split_words (acc @ [c]) cs)"

definition example_shell_rm :: "string \<Rightarrow> path list \<Rightarrow> path list" where
  "example_shell_rm text fs = fold rm_rf (split_words [] text) fs"

definition example_spawn :: "string \<Rightarrow> string list \<Rightarrow> proc_result" where
  "example_spawn c a =
     (if c = ''mongodump''
      then \<lparr>chunks = [(Stderr, ''writing shop.items'')], exit_code = Some 0,
            fs_effect = (\<lambda>fs. fs @ [''/tmp/mongodb_s3_backup/shop''])\<rparr>
      else \<lparr>chunks = [], exit_code = Some 0,
            fs_effect = (\<lambda>fs. fs @
              [''/tmp/mongodb_s3_backup/shop_2014_3_9_1394323200000.tar.gz''])\<rparr>)"

definition example_env :: env where
  "example_env =
     \<lparr>path_join = example_join,
      os_tmpDir = ''/tmp'',
      getFullYear = 2014, getMonth = 2, getDate = 9, getTime = 1394323200000,
      rm_results = (\<lambda>n. RmExit0),
      shell_rm = example_shell_rm,
      spawn_result = example_spawn,
      upload_result = Reply None ''{}'',
      upload_fault = None\<rparr>"

definition example_config :: mongo_options where
  "example_config =
     \<lparr>host = ''localhost'', port = ''27017'', db = ''shop'',
      username = None, password = None, authenticationDatabase = None,
      excludeCollection = None\<rparr>"

definition example_s3 :: s3_options where
  "example_s3 =
     \<lparr>key = ''k'', secret = ''s'', bucket = ''backups'', destination = Some ''/mongo'',
      encrypt = False\<rparr>"

definition example_world :: world where
  "example_world =
     \<lparr>files = [], trace = [], execs = 0, heap = (\<lambda>r. example_s3), raised = None\<rparr>"

text \<open>Every \<open>rm -rf\<close> is refused, and nothing is removed.\<close>

definition rm_denied :: "nat \<Rightarrow> rm_result" where
  "rm_denied n = RmFailed (Error ''EACCES'') (\<lambda>fs. fs)"

text \<open>The first \<open>rm -rf\<close> is refused, the later ones succeed.\<close>

definition rm_busy_once :: "nat \<Rightarrow> rm_result" where
  "rm_busy_once n = (if n = 0 then RmFailed (Error ''EBUSY'') (\<lambda>fs. fs) else RmExit0)"

section \<open>Properties\<close>

subsection \<open>Selectors and readers\<close>

lemma emit_sel [simp]:
  "trace (emit e w) = trace w @ [e]" "files (emit e w) = files w" "execs (emit e w) = execs w"
  "heap (emit e w) = heap w" "raised (emit e w) = raised w"
  by (simp_all add: emit_def)

lemma log_sel [simp]:
  "trace (log m t w) = trace w @ [Log (if t = [] then ''info'' else t) m]" "files (log m t w) = files w"
  "execs (log m t w) = execs w" "heap (log m t w) = heap w" "raised (log m t w) = raised w"
  by (simp_all add: log_def)

lemma stages_run_simps [simp]:
  "stages_run [] = []" "stages_run (e # es) = stage_of e @ stages_run es"
  "stages_run (xs @ ys) = stages_run xs @ stages_run ys"
  by (simp_all add: stages_run_def)

lemma callbacks_simps [simp]:
  "callbacks [] = []"
  "callbacks (e # es) = (case e of Callback x \<Rightarrow> [x] | _ \<Rightarrow> []) @ callbacks es"
  "callbacks (xs @ ys) = callbacks xs @ callbacks ys"
  by (simp_all add: callbacks_def)

lemma error_logs_simps [simp]:
  "error_logs [] = []"
  "error_logs (e # es) = (case e of Log t m \<Rightarrow> if t = ''error'' then [m] else [] | _ \<Rightarrow> []) @ error_logs es"
  "error_logs (xs @ ys) = error_logs xs @ error_logs ys"
  by (simp_all add: error_logs_def)

lemma uploads_simps [simp]:
  "uploads [] = []"
  "uploads (e # es) = (case e of MultiPartUpload r \<Rightarrow> [r] | _ \<Rightarrow> []) @ uploads es"
  "uploads (xs @ ys) = uploads xs @ uploads ys"
  by (simp_all add: uploads_def)

lemma since_same [simp]: "since w w = []"
  by (simp add: since_def)

lemma since_prefix: "prefix (trace w) (trace w') \<Longrightarrow> trace w' = trace w @ since w w'"
  by (auto simp add: since_def prefix_def)

lemma since_trans:
  "prefix (trace w) (trace w') \<Longrightarrow> prefix (trace w') (trace w'') \<Longrightarrow>
   since w w'' = since w w' @ since w' w''"
  by (auto simp add: since_def prefix_def)

lemma since_eq: "trace w' = trace w @ es \<Longrightarrow> since w w' = es"
  by (simp add: since_def)

subsection \<open>What removeRF does\<close>

lemma removeRF_trace: "trace (snd (removeRF env t w)) = trace w @ removal_events t w"
  by (simp add: removeRF_def exec_rm_rf_def removal_events_def Let_def split: rm_result.splits)

lemma removeRF_fst:
  "fst (removeRF env t w) =
     Called (if t \<in> set (files w)
             then (case rm_results env (execs w) of RmExit0 \<Rightarrow> None | RmFailed e l \<Rightarrow> Some e)
             else None)"
  by (simp add: removeRF_def exec_rm_rf_def Let_def split: rm_result.splits)

lemma removeRF_files:
  "files (snd (removeRF env t w)) =
     (if t \<in> set (files w)
      then (case rm_results env (execs w) of
              RmExit0 \<Rightarrow> if plain_word t then rm_rf t (files w) else shell_rm env t (files w)
            | RmFailed e l \<Rightarrow> l (files w))
      else files w)"
  by (simp add: removeRF_def exec_rm_rf_def Let_def split: rm_result.splits)

lemma removeRF_execs:
  "execs (snd (removeRF env t w)) = (if t \<in> set (files w) then Suc (execs w) else execs w)"
  by (simp add: removeRF_def exec_rm_rf_def Let_def split: rm_result.splits)

lemma removeRF_heap [simp]: "heap (snd (removeRF env t w)) = heap w"
  by (simp add: removeRF_def exec_rm_rf_def Let_def split: rm_result.splits)

lemma removeRF_raised [simp]: "raised (snd (removeRF env t w)) = raised w"
  by (simp add: removeRF_def exec_rm_rf_def Let_def split: rm_result.splits)

lemma removal_events_obs [simp]:
  "stages_run (removal_events t w) = []" "callbacks (removal_events t w) = []"
  "error_logs (removal_events t w) = []" "uploads (removal_events t w) = []"
  by (simp_all add: removal_events_def stage_of_def)

lemma removal_events_cong: "files w = files w' \<Longrightarrow> removal_events t w = removal_events t w'"
  by (simp add: removal_events_def)



lemma removeRF_cong:
  "files w = files w' \<Longrightarrow> execs w = execs w' \<Longrightarrow>
   fst (removeRF env t w) = fst (removeRF env t w') \<and>
   files (snd (removeRF env t w)) = files (snd (removeRF env t w'))"
  by (simp add: removeRF_fst removeRF_files split: rm_result.splits)

lemma removeRF_prefix [simp]: "prefix (trace w) (trace (snd (removeRF env t w)))"
  by (simp add: removeRF_trace)

lemma removeRF_since [simp]: "since w (snd (removeRF env t w)) = removal_events t w"
  by (simp add: since_eq removeRF_trace)



subsection \<open>What a series does\<close>

lemma series_Cons:
  "series (t # ts) w =
     (case fst (t w) of
        Called None \<Rightarrow> series ts (snd (t w))
      | Called (Some e) \<Rightarrow> (Called (Some e), snd (t w))
      | Unanswered \<Rightarrow> (Unanswered, snd (t w)))"
  by (cases "t w") (simp split: outcome.splits option.splits)

declare series.simps(2) [simp del]

lemma series_append:
  "series (ts @ us) w =
     (case fst (series ts w) of
        Called None \<Rightarrow> series us (snd (series ts w))
      | Called (Some e) \<Rightarrow> (Called (Some e), snd (series ts w))
      | Unanswered \<Rightarrow> (Unanswered, snd (series ts w)))"
proof (induction ts arbitrary: w)
  case Nil
  then show ?case by simp
next
  case (Cons t ts)
  show ?case
    by (cases "t w") (simp add: Cons.IH series.simps(2) split: outcome.splits option.splits)
qed

lemma series_prefix:
  "(\<And>t w. t \<in> set ts \<Longrightarrow> prefix (trace w) (trace (snd (t w)))) \<Longrightarrow>
   prefix (trace w) (trace (snd (series ts w)))"
proof (induction ts arbitrary: w)
  case Nil
  then show ?case by simp
next
  case (Cons t ts)
  have step: "prefix (trace w) (trace (snd (t w)))"
    using Cons.prems by simp
  have rest: "prefix (trace (snd (t w))) (trace (snd (series ts (snd (t w)))))"
    using Cons.IH Cons.prems by simp
  show ?case
    using step rest by (auto simp add: series_Cons split: outcome.splits option.splits)
qed

subsection \<open>The cleanup series\<close>

lemma cleanup_fst:
  "fst (series (tmpDirCleanupFns env cfg) w) =
     (if fst (removeRF env (backupDir env cfg) w) = Called None
      then fst (removeRF env (archivePath env cfg) (snd (removeRF env (backupDir env cfg) w)))
      else fst (removeRF env (backupDir env cfg) w))"
  by (simp add: tmpDirCleanupFns_def series_Cons removeRF_fst split: option.splits)

lemma cleanup_called: "\<exists>r. fst (series (tmpDirCleanupFns env cfg) w) = Called r"
  by (simp add: cleanup_fst removeRF_fst)

lemma cleanup_trace:
  "trace (snd (series (tmpDirCleanupFns env cfg) w)) = trace w @ cleanup_events env cfg w"
  by (simp add: tmpDirCleanupFns_def series_Cons removeRF_fst removeRF_trace cleanup_events_def
      split: option.splits)

lemma cleanup_heap [simp]: "heap (snd (series (tmpDirCleanupFns env cfg) w)) = heap w"
  by (simp add: tmpDirCleanupFns_def series_Cons removeRF_fst split: option.splits)

lemma cleanup_raised [simp]: "raised (snd (series (tmpDirCleanupFns env cfg) w)) = raised w"
  by (simp add: tmpDirCleanupFns_def series_Cons removeRF_fst split: option.splits)

lemma cleanup_events_obs [simp]:
  "stages_run (cleanup_events env cfg w) = []" "callbacks (cleanup_events env cfg w) = []"
  "error_logs (cleanup_events env cfg w) = []" "uploads (cleanup_events env cfg w) = []"
  by (simp_all add: cleanup_events_def)

lemma cleanup_events_cong:
  "files w = files w' \<Longrightarrow> execs w = execs w' \<Longrightarrow> cleanup_events env cfg w = cleanup_events env cfg w'"
  using removeRF_cong[of w w' env "backupDir env cfg"]
  by (simp add: cleanup_events_def removal_events_cong[of w w']
      removal_events_cong[of "snd (removeRF env (backupDir env cfg) w)" "snd (removeRF env (backupDir env cfg) w')"])

lemma cleanup_prefix [simp]: "prefix (trace w) (trace (snd (series (tmpDirCleanupFns env cfg) w)))"
  by (simp add: cleanup_trace)

lemma cleanup_since [simp]:
  "since w (snd (series (tmpDirCleanupFns env cfg) w)) = cleanup_events env cfg w"
  by (simp add: since_eq cleanup_trace)

subsection \<open>The child processes\<close>

lemma fold_dump_chunk:
  "fold dump_chunk cs w =
     w\<lparr>trace := trace w @ map (\<lambda>c. Log (if fst c = Stdout then ''info'' else ''error'') (snd c)) cs\<rparr>"
  by (induction cs arbitrary: w) (auto simp add: dump_chunk_def log_def emit_def split: stream.splits)

lemma fold_tar_chunk:
  "fold tar_chunk cs w =
     w\<lparr>trace := trace w @ map (\<lambda>c. Log ''error'' (snd c)) (filter (\<lambda>c. fst c = Stderr) cs)\<rparr>"
  by (induction cs arbitrary: w) (auto simp add: tar_chunk_def log_def emit_def split: stream.splits)

lemma chunk_logs_obs [simp]:
  "stages_run (map (\<lambda>c. Log (f c) (g c)) cs) = []"
  "callbacks (map (\<lambda>c. Log (f c) (g c)) cs) = []"
  "uploads (map (\<lambda>c. Log (f c) (g c)) cs) = []"
  by (induction cs) (simp_all add: stage_of_def)

lemma mongoDump_fst:
  "fst (mongoDump env options directory w) =
     (if exit_code (spawn_result env ''mongodump'' (mongoOptions options directory)) = Some 0
      then Called None
      else Called (Some (Error (''Mongodump exited with code '' @
             js_code (exit_code (spawn_result env ''mongodump'' (mongoOptions options directory)))))))"
  by (simp add: mongoDump_def Let_def)

lemma mongoDump_trace:
  "\<exists>es. trace (snd (mongoDump env options directory w)) = trace w @ es \<and>
        stages_run es = [Dump] \<and> callbacks es = [] \<and> uploads es = []"
  by (simp add: mongoDump_def Let_def fold_dump_chunk stage_of_def)

lemma mongoDump_heap [simp]: "heap (snd (mongoDump env options directory w)) = heap w"
  by (simp add: mongoDump_def Let_def fold_dump_chunk)

lemma mongoDump_raised [simp]: "raised (snd (mongoDump env options directory w)) = raised w"
  by (simp add: mongoDump_def Let_def fold_dump_chunk)

lemma mongoDump_files:
  "files (snd (mongoDump env options directory w)) =
     fs_effect (spawn_result env ''mongodump'' (mongoOptions options directory)) (files w)"
  by (simp add: mongoDump_def Let_def fold_dump_chunk)

lemma mongoDump_execs [simp]: "execs (snd (mongoDump env options directory w)) = execs w"
  by (simp add: mongoDump_def Let_def fold_dump_chunk)

lemma mongoDump_prefix [simp]: "prefix (trace w) (trace (snd (mongoDump env options directory w)))"
  using mongoDump_trace[of env options directory w] by auto

lemma mongoDump_since [simp]:
  "stages_run (since w (snd (mongoDump env options directory w))) = [Dump]"
  "callbacks (since w (snd (mongoDump env options directory w))) = []"
  "uploads (since w (snd (mongoDump env options directory w))) = []"
  using mongoDump_trace[of env options directory w] by (auto simp add: since_def)

lemma compressDirectory_fst:
  "fst (compressDirectory env directory inp outp w) =
     (if exit_code (spawn_result env ''tar'' [''-zcf'', outp, inp]) = Some 0
      then Called None
      else Called (Some (Error (''Tar exited with code '' @
             js_code (exit_code (spawn_result env ''tar'' [''-zcf'', outp, inp]))))))"
  by (simp add: compressDirectory_def Let_def)

lemma compressDirectory_trace:
  "\<exists>es. trace (snd (compressDirectory env directory inp outp w)) = trace w @ es \<and>
        stages_run es = [Compress] \<and> callbacks es = [] \<and> uploads es = []"
  by (simp add: compressDirectory_def Let_def fold_tar_chunk stage_of_def)

lemma compressDirectory_heap [simp]:
  "heap (snd (compressDirectory env directory inp outp w)) = heap w"
  by (simp add: compressDirectory_def Let_def fold_tar_chunk)

lemma compressDirectory_raised [simp]:
  "raised (snd (compressDirectory env directory inp outp w)) = raised w"
  by (simp add: compressDirectory_def Let_def fold_tar_chunk)

lemma compressDirectory_files:
  "files (snd (compressDirectory env directory inp outp w)) =
     fs_effect (spawn_result env ''tar'' [''-zcf'', outp, inp]) (files w)"
  by (simp add: compressDirectory_def Let_def fold_tar_chunk)

lemma compressDirectory_execs [simp]:
  "execs (snd (compressDirectory env directory inp outp w)) = execs w"
  by (simp add: compressDirectory_def Let_def fold_tar_chunk)

lemma compressDirectory_prefix [simp]:
  "prefix (trace w) (trace (snd (compressDirectory env directory inp outp w)))"
  using compressDirectory_trace[of env directory inp outp w] by auto

lemma compressDirectory_since [simp]:
  "stages_run (since w (snd (compressDirectory env directory inp outp w))) = [Compress]"
  "callbacks (since w (snd (compressDirectory env directory inp outp w))) = []"
  "uploads (since w (snd (compressDirectory env directory inp outp w))) = []"
  using compressDirectory_trace[of env directory inp outp w] by (auto simp add: since_def)

subsection \<open>The upload\<close>

lemma sendToS3_fst:
  "fst (sendToS3 env options directory target w) =
     (case upload_result env of Reply err body \<Rightarrow> Called err | NoReply \<Rightarrow> Unanswered)"
  by (simp add: sendToS3_def Let_def split: upload_reply.splits option.splits)

lemma sendToS3_heap:
  "heap (snd (sendToS3 env options directory target w)) =
     (heap w)(options := (heap w options)\<lparr>destination := None\<rparr>)"
  by (simp add: sendToS3_def Let_def split: upload_reply.splits option.splits)

lemma sendToS3_raised: "raised (snd (sendToS3 env options directory target w)) = upload_fault env"
  by (simp add: sendToS3_def Let_def split: upload_reply.splits option.splits)

lemma sendToS3_files: "files (snd (sendToS3 env options directory target w)) = files w"
  by (simp add: sendToS3_def Let_def split: upload_reply.splits option.splits)

lemma sendToS3_execs [simp]: "execs (snd (sendToS3 env options directory target w)) = execs w"
  by (simp add: sendToS3_def Let_def split: upload_reply.splits option.splits)

lemma sendToS3_trace:
  "\<exists>es. trace (snd (sendToS3 env options directory target w)) = trace w @ es \<and>
        stages_run es = [Upload] \<and> callbacks es = [] \<and>
        uploads es =
          [\<lparr>client = (heap w options)\<lparr>destination := None\<rparr>,
            objectName = path_join env
              (case destination (heap w options) of
                 Some d \<Rightarrow> if d = [] then ''/'' else d | None \<Rightarrow> ''/'') target,
            headers = (if encrypt (heap w options)
                       then [(''x-amz-server-side-encryption'', ''AES256'')] else []),
            sourceFile = path_join env directory target,
            partSize = 10485760,
            maxRetries = 2\<rparr>]"
  by (simp add: sendToS3_def Let_def stage_of_def truthy_def split: upload_reply.splits option.splits)

lemma sendToS3_prefix [simp]:
  "prefix (trace w) (trace (snd (sendToS3 env options directory target w)))"
  using sendToS3_trace[of env options directory target w] by auto

lemma sendToS3_since [simp]:
  "stages_run (since w (snd (sendToS3 env options directory target w))) = [Upload]"
  "callbacks (since w (snd (sendToS3 env options directory target w))) = []"
  using sendToS3_trace[of env options directory target w] by (auto simp add: since_def)

lemma sendToS3_uploads:
  "uploads (since w (snd (sendToS3 env options directory target w))) =
          [\<lparr>client = (heap w options)\<lparr>destination := None\<rparr>,
            objectName = path_join env
              (case destination (heap w options) of
                 Some d \<Rightarrow> if d = [] then ''/'' else d | None \<Rightarrow> ''/'') target,
            headers = (if encrypt (heap w options)
                       then [(''x-amz-server-side-encryption'', ''AES256'')] else []),
            sourceFile = path_join env directory target,
            partSize = 10485760,
            maxRetries = 2\<rparr>]"
  using sendToS3_trace[of env options directory target w] by (auto simp add: since_def)

lemma sendToS3_events:
  "since w (snd (sendToS3 env options directory target w)) =
     [CreateClient ((heap w options)\<lparr>destination := None\<rparr>),
      Log ''info'' (''Attemping to upload '' @ target @ '' to the '' @ bucket (heap w options)
                     @ '' s3 bucket''),
      MultiPartUpload
        \<lparr>client = (heap w options)\<lparr>destination := None\<rparr>,
         objectName = path_join env
           (case destination (heap w options) of
              Some d \<Rightarrow> if d = [] then ''/'' else d | None \<Rightarrow> ''/'') target,
         headers = (if encrypt (heap w options)
                    then [(''x-amz-server-side-encryption'', ''AES256'')] else []),
         sourceFile = path_join env directory target,
         partSize = 10485760,
         maxRetries = 2\<rparr>] @
     (case upload_result env of
        Reply None body \<Rightarrow> [Log ''info'' ''Successfully uploaded to s3'', Log ''info'' body]
      | Reply (Some err) body \<Rightarrow> []
      | NoReply \<Rightarrow> [])"
  by (rule since_eq)
    (simp add: sendToS3_def Let_def truthy_def split: upload_reply.splits option.splits)

subsection \<open>The two callbacks of sync\<close>

lemma finish_trace:
  "trace (finish env cfg err w) =
     trace w @
     [Log (case err of None \<Rightarrow> ''info'' | Some e \<Rightarrow> ''error'')
          (case err of None \<Rightarrow> ''Successfully backed up '' @ db cfg | Some e \<Rightarrow> error_text e)] @
     cleanup_events env cfg w @ [Callback err]"
proof -
  let ?w1 = "case err of Some e \<Rightarrow> log (error_text e) ''error'' w
             | None \<Rightarrow> log (''Successfully backed up '' @ db cfg) [] w"
  obtain r where r: "fst (series (tmpDirCleanupFns env cfg) ?w1) = Called r"
    using cleanup_called by blast
  have same: "cleanup_events env cfg ?w1 = cleanup_events env cfg w"
    by (rule cleanup_events_cong) (simp_all split: option.splits)
  have "finish env cfg err w = emit (Callback err) (snd (series (tmpDirCleanupFns env cfg) ?w1))"
    using r by (cases "series (tmpDirCleanupFns env cfg) ?w1") (simp add: finish_def Let_def)
  then show ?thesis
    by (simp add: cleanup_trace same split: option.splits)
qed

lemma finish_raised [simp]: "raised (finish env cfg err w) = raised w"
proof -
  let ?w1 = "case err of Some e \<Rightarrow> log (error_text e) ''error'' w
             | None \<Rightarrow> log (''Successfully backed up '' @ db cfg) [] w"
  obtain r where r: "fst (series (tmpDirCleanupFns env cfg) ?w1) = Called r"
    using cleanup_called by blast
  have "finish env cfg err w = emit (Callback err) (snd (series (tmpDirCleanupFns env cfg) ?w1))"
    using r by (cases "series (tmpDirCleanupFns env cfg) ?w1") (simp add: finish_def Let_def)
  then show ?thesis
    by (simp split: option.splits)
qed

lemma finish_eq:
  "finish env cfg err w =
     emit (Callback err)
       (snd (series (tmpDirCleanupFns env cfg)
          (log (case err of None \<Rightarrow> ''Successfully backed up '' @ db cfg | Some e \<Rightarrow> error_text e)
               (case err of None \<Rightarrow> [] | Some e \<Rightarrow> ''error'') w)))"
proof -
  let ?w1 = "log (case err of None \<Rightarrow> ''Successfully backed up '' @ db cfg | Some e \<Rightarrow> error_text e)
               (case err of None \<Rightarrow> [] | Some e \<Rightarrow> ''error'') w"
  obtain r where r: "fst (series (tmpDirCleanupFns env cfg) ?w1) = Called r"
    using cleanup_called by blast
  have "(case err of Some e \<Rightarrow> log (error_text e) ''error'' w
             | None \<Rightarrow> log (''Successfully backed up '' @ db cfg) [] w) = ?w1"
    by (simp split: option.splits)
  then show ?thesis
    using r by (cases "series (tmpDirCleanupFns env cfg) ?w1") (simp add: finish_def Let_def)
qed

lemma on_error_trace:
  "trace (on_error env cfg err w) =
     trace w @ [DomainExit] @ cleanup_events env cfg w @ [Throw err]"
proof -
  obtain r where r: "fst (series (tmpDirCleanupFns env cfg) (emit DomainExit w)) = Called r"
    using cleanup_called by blast
  have same: "cleanup_events env cfg (emit DomainExit w) = cleanup_events env cfg w"
    by (rule cleanup_events_cong) simp_all
  have "on_error env cfg err w =
          emit (Throw err) (snd (series (tmpDirCleanupFns env cfg) (emit DomainExit w)))"
    using r by (cases "series (tmpDirCleanupFns env cfg) (emit DomainExit w)") (simp add: on_error_def)
  then show ?thesis
    by (simp add: cleanup_trace same)
qed

lemma on_error_eq:
  "on_error env cfg err w =
     emit (Throw err) (snd (series (tmpDirCleanupFns env cfg) (emit DomainExit w)))"
proof -
  obtain r where r: "fst (series (tmpDirCleanupFns env cfg) (emit DomainExit w)) = Called r"
    using cleanup_called by blast
  then show ?thesis
    by (cases "series (tmpDirCleanupFns env cfg) (emit DomainExit w)") (simp add: on_error_def)
qed

lemma on_error_since:
  "since w (on_error env cfg e w) = [DomainExit] @ cleanup_events env cfg w @ [Throw e]"
  by (rule since_eq) (simp add: on_error_trace)

subsection \<open>The stages of a job\<close>

lemma work_fst:
  "fst (series (work env cfg s3) w) =
     (if dump_code env cfg \<noteq> Some 0
      then Called (Some (Error (''Mongodump exited with code '' @ js_code (dump_code env cfg))))
      else if tar_code env cfg \<noteq> Some 0
      then Called (Some (Error (''Tar exited with code '' @ js_code (tar_code env cfg))))
      else (case upload_result env of Reply err body \<Rightarrow> Called err | NoReply \<Rightarrow> Unanswered))"
  by (simp add: work_def series_Cons mongoDump_fst compressDirectory_fst sendToS3_fst
      dump_code_def tar_code_def split: upload_reply.splits option.splits)

lemma work_prefix [simp]: "prefix (trace w) (trace (snd (series (work env cfg s3) w)))"
  by (rule series_prefix) (auto simp add: work_def)

lemma work_since:
  "stages_run (since w (snd (series (work env cfg s3) w))) =
     Dump # (if dump_code env cfg \<noteq> Some 0 then []
             else Compress # (if tar_code env cfg \<noteq> Some 0 then [] else [Upload]))"
  "callbacks (since w (snd (series (work env cfg s3) w))) = []"
proof -
  let ?d = "mongoDump env cfg (tmpDir env)"
  let ?t = "compressDirectory env (tmpDir env) (db cfg) (archiveName env cfg)"
  let ?u = "sendToS3 env s3 (tmpDir env) (archiveName env cfg)"
  let ?w1 = "snd (?d w)"
  let ?w2 = "snd (?t ?w1)"
  let ?w3 = "snd (?u ?w2)"
  have s2: "since w ?w2 = since w ?w1 @ since ?w1 ?w2"
    by (rule since_trans) simp_all
  have "prefix (trace w) (trace ?w2)"
    using mongoDump_prefix compressDirectory_prefix prefix_order.trans by blast
  then have s3: "since w ?w3 = since w ?w2 @ since ?w2 ?w3"
    by (rule since_trans) simp
  have w: "snd (series (work env cfg s3) w) =
             (if dump_code env cfg \<noteq> Some 0 then ?w1
              else if tar_code env cfg \<noteq> Some 0 then ?w2 else ?w3)"
    by (simp add: work_def series_Cons mongoDump_fst compressDirectory_fst sendToS3_fst
        dump_code_def tar_code_def split: upload_reply.splits option.splits)
  show "stages_run (since w (snd (series (work env cfg s3) w))) =
     Dump # (if dump_code env cfg \<noteq> Some 0 then []
             else Compress # (if tar_code env cfg \<noteq> Some 0 then [] else [Upload]))"
    by (simp add: w s2 s3)
  show "callbacks (since w (snd (series (work env cfg s3) w))) = []"
    by (simp add: w s2 s3)
qed

lemma work_raised:
  "raised (snd (series (work env cfg s3) w)) =
     (if dump_code env cfg = Some 0 \<and> tar_code env cfg = Some 0 then upload_fault env else raised w)"
  by (simp add: work_def series_Cons mongoDump_fst compressDirectory_fst sendToS3_fst sendToS3_raised
      dump_code_def tar_code_def split: upload_reply.splits option.splits)

lemma stages_work: "stages env cfg s3 = tmpDirCleanupFns env cfg @ work env cfg s3"
  by (simp add: stages_def work_def)

lemma stages_fst:
  "fst (series (stages env cfg s3) w) =
     (case fst (series (tmpDirCleanupFns env cfg) w) of
        Called None \<Rightarrow> fst (series (work env cfg s3) (snd (series (tmpDirCleanupFns env cfg) w)))
      | r \<Rightarrow> r)"
  by (simp add: stages_work series_append split: outcome.splits option.splits)

lemma stages_snd:
  "snd (series (stages env cfg s3) w) =
     (if fst (series (tmpDirCleanupFns env cfg) w) = Called None
      then snd (series (work env cfg s3) (snd (series (tmpDirCleanupFns env cfg) w)))
      else snd (series (tmpDirCleanupFns env cfg) w))"
  by (simp add: stages_work series_append split: outcome.splits option.splits)

lemma stages_prefix [simp]: "prefix (trace w) (trace (snd (series (stages env cfg s3) w)))"
  by (rule series_prefix) (auto simp add: stages_def tmpDirCleanupFns_def)

lemma stages_since:
  "stages_run (since w (snd (series (stages env cfg s3) w))) =
     (if fst (series (tmpDirCleanupFns env cfg) w) \<noteq> Called None then []
      else Dump # (if dump_code env cfg \<noteq> Some 0 then []
                   else Compress # (if tar_code env cfg \<noteq> Some 0 then [] else [Upload])))"
  "callbacks (since w (snd (series (stages env cfg s3) w))) = []"
proof -
  let ?w1 = "snd (series (tmpDirCleanupFns env cfg) w)"
  have s: "since w (snd (series (work env cfg s3) ?w1)) =
             since w ?w1 @ since ?w1 (snd (series (work env cfg s3) ?w1))"
    by (rule since_trans) simp_all
  show "stages_run (since w (snd (series (stages env cfg s3) w))) =
     (if fst (series (tmpDirCleanupFns env cfg) w) \<noteq> Called None then []
      else Dump # (if dump_code env cfg \<noteq> Some 0 then []
                   else Compress # (if tar_code env cfg \<noteq> Some 0 then [] else [Upload])))"
    by (simp add: stages_snd s work_since)
  show "callbacks (since w (snd (series (stages env cfg s3) w))) = []"
    by (simp add: stages_snd s work_since)
qed

lemma stages_raised:
  "raised (snd (series (stages env cfg s3) w)) =
     (if fst (series (tmpDirCleanupFns env cfg) w) = Called None \<and>
         dump_code env cfg = Some 0 \<and> tar_code env cfg = Some 0
      then upload_fault env else raised w)"
  by (simp add: stages_snd work_raised)

subsection \<open>A whole job\<close>

lemma sync_eq:
  "sync env cfg s3 w =
     (case raised (snd (series (stages env cfg s3) w)) of
        None \<Rightarrow>
          (case fst (series (stages env cfg s3) w) of
             Called err \<Rightarrow> finish env cfg err (snd (series (stages env cfg s3) w))
           | Unanswered \<Rightarrow> snd (series (stages env cfg s3) w))
      | Some e \<Rightarrow>
          on_error env cfg e
            ((case fst (series (stages env cfg s3) w) of
                Called err \<Rightarrow> finish env cfg err (snd (series (stages env cfg s3) w))
              | Unanswered \<Rightarrow> snd (series (stages env cfg s3) w))\<lparr>raised := None\<rparr>))"
  by (cases "series (stages env cfg s3) w")
    (simp add: sync_def Let_def split: outcome.splits option.splits)

lemma sync_trace:
  "trace (sync env cfg s3 w) =
     trace (snd (series (stages env cfg s3) w)) @
     (case fst (series (stages env cfg s3) w) of
        Called err \<Rightarrow>
          [Log (case err of None \<Rightarrow> ''info'' | Some e \<Rightarrow> ''error'')
               (case err of None \<Rightarrow> ''Successfully backed up '' @ db cfg | Some e \<Rightarrow> error_text e)] @
          cleanup_events env cfg (snd (series (stages env cfg s3) w)) @ [Callback err]
      | Unanswered \<Rightarrow> []) @
     (case raised (snd (series (stages env cfg s3) w)) of
        None \<Rightarrow> []
      | Some e \<Rightarrow>
          [DomainExit] @
          cleanup_events env cfg
            (case fst (series (stages env cfg s3) w) of
               Called err \<Rightarrow> finish env cfg err (snd (series (stages env cfg s3) w))
             | Unanswered \<Rightarrow> snd (series (stages env cfg s3) w)) @
          [Throw e])"
proof -
  have same: "cleanup_events env cfg (v\<lparr>raised := None\<rparr>) = cleanup_events env cfg v" for v
    by (rule cleanup_events_cong) simp_all
  show ?thesis
    by (cases "series (stages env cfg s3) w")
      (simp add: sync_def Let_def finish_trace on_error_trace same
        split: outcome.splits option.splits)
qed

lemma run_eq:
  "run env cfg s3 w =
     since w (snd (series (stages env cfg s3) w)) @
     since (snd (series (stages env cfg s3) w)) (sync env cfg s3 w)"
proof -
  have "prefix (trace (snd (series (stages env cfg s3) w))) (trace (sync env cfg s3 w))"
    by (simp add: sync_trace)
  then show ?thesis
    unfolding run_def by (intro since_trans) simp_all
qed

lemma after_stages:
  "since (snd (series (stages env cfg s3) w)) (sync env cfg s3 w) =
     (case fst (series (stages env cfg s3) w) of
        Called err \<Rightarrow>
          [Log (case err of None \<Rightarrow> ''info'' | Some e \<Rightarrow> ''error'')
               (case err of None \<Rightarrow> ''Successfully backed up '' @ db cfg | Some e \<Rightarrow> error_text e)] @
          cleanup_events env cfg (snd (series (stages env cfg s3) w)) @ [Callback err]
      | Unanswered \<Rightarrow> []) @
     (case raised (snd (series (stages env cfg s3) w)) of
        None \<Rightarrow> []
      | Some e \<Rightarrow>
          [DomainExit] @
          cleanup_events env cfg
            (case fst (series (stages env cfg s3) w) of
               Called err \<Rightarrow> finish env cfg err (snd (series (stages env cfg s3) w))
             | Unanswered \<Rightarrow> snd (series (stages env cfg s3) w)) @
          [Throw e])"
  by (rule since_eq) (rule sync_trace)

lemma run_callbacks:
  "callbacks (run env cfg s3 w) =
     (case fst (series (stages env cfg s3) w) of Called err \<Rightarrow> [err] | Unanswered \<Rightarrow> [])"
  by (simp add: run_eq after_stages stages_since split: outcome.splits option.splits)

lemma run_stages:
  "stages_run (run env cfg s3 w) =
     (if fst (series (tmpDirCleanupFns env cfg) w) \<noteq> Called None then []
      else Dump # (if dump_code env cfg \<noteq> Some 0 then []
                   else Compress # (if tar_code env cfg \<noteq> Some 0 then [] else [Upload])))"
  by (simp add: run_eq after_stages stages_since stage_of_def split: outcome.splits option.splits)

lemma run_error_logs_after:
  "error_logs (since (snd (series (stages env cfg s3) w)) (sync env cfg s3 w)) =
     (case fst (series (stages env cfg s3) w) of
        Called (Some e) \<Rightarrow> [error_text e]
      | _ \<Rightarrow> [])"
  by (simp add: after_stages split: outcome.splits option.splits)

lemma preclean_failed_run:
  assumes "fst (series (tmpDirCleanupFns env cfg) w) = Called (Some e)"
  shows "run env cfg s3 w =
     cleanup_events env cfg w @
     [Log ''error'' (error_text e)] @
     cleanup_events env cfg (snd (series (tmpDirCleanupFns env cfg) w)) @
     [Callback (Some e)] @
     (case raised w of
        None \<Rightarrow> []
      | Some e' \<Rightarrow>
          [DomainExit] @
          cleanup_events env cfg
            (finish env cfg (Some e) (snd (series (tmpDirCleanupFns env cfg) w))) @
          [Throw e'])"
proof -
  have f: "fst (series (stages env cfg s3) w) = Called (Some e)"
    using assms by (simp add: stages_fst)
  have s: "snd (series (stages env cfg s3) w) = snd (series (tmpDirCleanupFns env cfg) w)"
    using assms by (simp add: stages_snd)
  have t: "since (snd (series (stages env cfg s3) w)) (sync env cfg s3 w) =
     [Log ''error'' (error_text e)] @
     cleanup_events env cfg (snd (series (stages env cfg s3) w)) @
     [Callback (Some e)] @
     (case raised (snd (series (stages env cfg s3) w)) of
        None \<Rightarrow> []
      | Some e' \<Rightarrow>
          [DomainExit] @
          cleanup_events env cfg (finish env cfg (Some e) (snd (series (stages env cfg s3) w))) @
          [Throw e'])"
    by (simp add: after_stages f split: option.splits)
  show ?thesis
    unfolding run_eq t by (simp add: s split: option.splits)
qed

subsection \<open>Decimal texts\<close>

lemma digit_cases: "n < 10 \<Longrightarrow> n \<in> {0, 1, 2, 3, 4, 5, 6, 7, 8, 9::nat}"
  by auto

lemma digit_val_digit: "n < 10 \<Longrightarrow> digit_val (digit n) = n"
  using digit_cases[of n] by (auto simp add: digit_val_def digit_def)

lemma digit_not_sign: "n < 10 \<Longrightarrow> digit n \<noteq> CHR ''-'' \<and> digit n \<noteq> CHR ''n''"
  using digit_cases[of n] by (auto simp add: digit_def)

lemma read_nat_snoc: "read_nat (s @ [c]) = 10 * read_nat s + digit_val c"
  by (simp add: read_nat_def)

lemma read_show_nat: "read_nat (show_nat n) = n"
proof (induction n rule: show_nat.induct)
  case (1 n)
  show ?case
  proof (cases "n < 10")
    case True
    then show ?thesis
      by (simp add: show_nat.simps[of n] read_nat_def digit_val_digit)
  next
    case False
    then have "read_nat (show_nat n) = 10 * read_nat (show_nat (n div 10)) + digit_val (digit (n mod 10))"
      by (simp add: show_nat.simps[of n] read_nat_snoc)
    also have "\<dots> = 10 * (n div 10) + n mod 10"
      using False 1 by (simp add: digit_val_digit)
    finally show ?thesis
      by simp
  qed
qed

lemma show_nat_first:
  "\<exists>c cs. show_nat n = c # cs \<and> c \<noteq> CHR ''-'' \<and> c \<noteq> CHR ''n''"
proof (induction n rule: show_nat.induct)
  case (1 n)
  show ?case
  proof (cases "n < 10")
    case True
    then show ?thesis
      using digit_not_sign[of n] by (simp add: show_nat.simps[of n])
  next
    case False
    then obtain c cs where "show_nat (n div 10) = c # cs \<and> c \<noteq> CHR ''-'' \<and> c \<noteq> CHR ''n''"
      using 1 by blast
    then show ?thesis
      using False by (simp add: show_nat.simps[of n])
  qed
qed

lemma read_js_code: "read_code (js_code c) = c"
proof (cases c)
  case None
  then show ?thesis
    by (simp add: read_code_def js_code_def)
next
  case (Some i)
  show ?thesis
  proof (cases "i < 0")
    case True
    obtain d ds where d: "show_nat (nat (- i)) = d # ds \<and> d \<noteq> CHR ''-'' \<and> d \<noteq> CHR ''n''"
      using show_nat_first by blast
    have "read_nat (show_nat (nat (- i))) = nat (- i)"
      by (rule read_show_nat)
    then show ?thesis
      using True Some by (simp add: read_code_def js_code_def js_number_def)
  next
    case False
    obtain d ds where d: "show_nat (nat i) = d # ds \<and> d \<noteq> CHR ''-'' \<and> d \<noteq> CHR ''n''"
      using show_nat_first by blast
    have "read_nat (show_nat (nat i)) = nat i"
      by (rule read_show_nat)
    then show ?thesis
      using False Some d by (simp add: read_code_def js_code_def js_number_def)
  qed
qed

subsection \<open>The argument list of mongodump\<close>

lemma push_excludes:
  "foldl (\<lambda>acc collection. acc @ [f, collection]) a cs = a @ concat (map (\<lambda>c. [f, c]) cs)"
  by (induction cs arbitrary: a) simp_all

lemma mongoOptions_parts:
  "mongoOptions options directory =
     [''-h'', host options @ '':'' @ port options, ''-d'', db options, ''-o'', directory] @
     credential_args options @ authentication_args options @ exclusion_args options"
  by (simp add: mongoOptions_def Let_def truthy_def push_excludes credential_args_def
      authentication_args_def exclusion_args_def split: option.splits)







subsection \<open>The example job, evaluated\<close>

lemma example_env_fields:
  "path_join example_env = example_join" "os_tmpDir example_env = ''/tmp''"
  "getFullYear example_env = 2014" "getMonth example_env = 2" "getDate example_env = 9"
  "getTime example_env = 1394323200000" "rm_results example_env = (\<lambda>n. RmExit0)"
  "shell_rm example_env = example_shell_rm"
  "spawn_result example_env = example_spawn" "upload_result example_env = Reply None ''{}''"
  "upload_fault example_env = None"
  by (simp_all add: example_env_def)

lemma example_config_fields:
  "host example_config = ''localhost''" "port example_config = ''27017''"
  "db example_config = ''shop''" "username example_config = None"
  "password example_config = None" "authenticationDatabase example_config = None"
  "excludeCollection example_config = None"
  by (simp_all add: example_config_def)

lemma example_world_fields:
  "files example_world = []" "trace example_world = []" "execs example_world = 0"
  "heap example_world = (\<lambda>r. example_s3)" "raised example_world = None"
  by (simp_all add: example_world_def)

lemma example_names:
  assumes "path_join env = example_join" "os_tmpDir env = ''/tmp''" "getFullYear env = 2014"
    "getMonth env = 2" "getDate env = 9" "getTime env = 1394323200000"
  shows "tmpDir env = ''/tmp/mongodb_s3_backup''"
    and "backupDir env example_config = ''/tmp/mongodb_s3_backup/shop''"
    and "archiveName env example_config = ''shop_2014_3_9_1394323200000.tar.gz''"
    and "archivePath env example_config =
           ''/tmp/mongodb_s3_backup/shop_2014_3_9_1394323200000.tar.gz''"
  using assms
  by (simp_all add: tmpDir_def backupDir_def archiveName_def archivePath_def getArchiveName_def
      example_config_fields example_join_def js_number_def show_nat.simps digit_def)

lemma example_args:
  "mongoOptions example_config d = [''-h'', ''localhost:27017'', ''-d'', ''shop'', ''-o'', d]"
  by (simp add: mongoOptions_parts credential_args_def authentication_args_def exclusion_args_def
      example_config_fields)

lemma example_plain:
  "plain_word ''/tmp/mongodb_s3_backup/shop''"
  "plain_word ''/tmp/mongodb_s3_backup/shop_2014_3_9_1394323200000.tar.gz''"
  "\<not> plain_word ''/tmp/old dump''"
  by (simp_all add: plain_word_def plain_char_def)

lemmas eval_simps = series_Cons stages_def tmpDirCleanupFns_def
  removeRF_fst removeRF_files removeRF_execs removeRF_trace removal_events_def
  mongoDump_fst mongoDump_files compressDirectory_fst compressDirectory_files
  sendToS3_fst sendToS3_files sendToS3_raised sendToS3_heap
  rm_rf_def under_def dump_code_def tar_code_def
  example_env_fields example_config_fields example_world_fields example_names example_args
  example_plain example_shell_rm_def example_spawn_def rm_denied_def rm_busy_once_def

lemma example_stages:
  "fst (series (stages example_env example_config 0) example_world) = Called None"
  by (simp add: eval_simps)

lemma denied_stages:
  "fst (series (stages (example_env\<lparr>rm_results := rm_denied\<rparr>) example_config 0)
          example_world) = Called None"
  "files (snd (series (stages (example_env\<lparr>rm_results := rm_denied\<rparr>) example_config 0)
          example_world)) =
     [''/tmp/mongodb_s3_backup/shop'',
      ''/tmp/mongodb_s3_backup/shop_2014_3_9_1394323200000.tar.gz'']"
  "execs (snd (series (stages (example_env\<lparr>rm_results := rm_denied\<rparr>) example_config 0)
          example_world)) = 0"
  "raised (snd (series (stages (example_env\<lparr>rm_results := rm_denied\<rparr>) example_config 0)
          example_world)) = None"
  by (simp_all add: eval_simps)

section \<open>The claims\<close>

subsection \<open>C1: cleanup after the stages, the callback after the cleanup\<close>

text \<open>
  Claim C1. Whenever the first series of \<open>sync\<close> ends, with an error or without one, what
  follows is: the log line, the existence check of the backup directory (with its
  \<open>rm -rf\<close> when it exists), then, unless that removal failed, the same for the archive,
  and only then the job's callback, invoked with the error of the first series. No
  callback is invoked before, and none after.

  The removal of the archive is not attempted when the removal of the backup directory
  fails: \<open>async.series\<close> stops at the first error.
\<close>

theorem cleanup_then_callback:
  assumes "fst (series (stages env cfg s3) w) = Called err"
  shows "\<exists>rest.
           since (snd (series (stages env cfg s3) w)) (sync env cfg s3 w) =
             [Log (case err of None \<Rightarrow> ''info'' | Some e \<Rightarrow> ''error'')
                  (case err of None \<Rightarrow> ''Successfully backed up '' @ db cfg
                   | Some e \<Rightarrow> error_text e)] @
             removal_events (backupDir env cfg) (snd (series (stages env cfg s3) w)) @
             (if fst (removeRF env (backupDir env cfg) (snd (series (stages env cfg s3) w))) = Called None
              then removal_events (archivePath env cfg)
                     (snd (removeRF env (backupDir env cfg) (snd (series (stages env cfg s3) w))))
              else []) @
             [Callback err] @ rest
           \<and> callbacks rest = []
           \<and> callbacks (since w (snd (series (stages env cfg s3) w))) = []"
  using assms
  by (simp add: after_stages stages_since cleanup_events_def split: option.splits)

text \<open>
  The example job: its stages succeed, and the events after them are as stated.
\<close>

theorem cleanup_then_callback_witness:
  "fst (series (stages example_env example_config 0) example_world) = Called None
   \<and> (\<exists>rest.
        since (snd (series (stages example_env example_config 0) example_world))
          (sync example_env example_config 0 example_world) =
          [Log ''info'' (''Successfully backed up '' @ db example_config)] @
          removal_events (backupDir example_env example_config)
            (snd (series (stages example_env example_config 0) example_world)) @
          (if fst (removeRF example_env (backupDir example_env example_config)
                 (snd (series (stages example_env example_config 0) example_world))) = Called None
           then removal_events (archivePath example_env example_config)
                  (snd (removeRF example_env (backupDir example_env example_config)
                     (snd (series (stages example_env example_config 0) example_world))))
           else []) @
          [Callback None] @ rest
        \<and> callbacks rest = []
        \<and> callbacks (since example_world
              (snd (series (stages example_env example_config 0) example_world))) = [])"
  using example_stages cleanup_then_callback [OF example_stages]
  by simp

text \<open>
  With every \<open>rm -rf\<close> refused, the example job dumps, compresses and uploads; the
  cleanup then stops at the backup directory. The archive is never looked at, the
  callback is invoked, and both paths are still there.
\<close>

theorem cleanup_skips_archive_counterexample:
  "since (snd (series (stages (example_env\<lparr>rm_results := rm_denied\<rparr>) example_config 0) example_world))
     (sync (example_env\<lparr>rm_results := rm_denied\<rparr>) example_config 0 example_world) =
     [Log ''info'' ''Successfully backed up shop'',
      FsExists ''/tmp/mongodb_s3_backup/shop'',
      Log ''info'' ''Removing /tmp/mongodb_s3_backup/shop'',
      Exec ''rm -rf /tmp/mongodb_s3_backup/shop'',
      Callback None]
   \<and> files (sync (example_env\<lparr>rm_results := rm_denied\<rparr>) example_config 0 example_world) =
     [''/tmp/mongodb_s3_backup/shop'',
      ''/tmp/mongodb_s3_backup/shop_2014_3_9_1394323200000.tar.gz'']"
proof -
  let ?env = "example_env\<lparr>rm_results := rm_denied\<rparr>"
  let ?w1 = "snd (series (stages ?env example_config 0) example_world)"
  have c: "cleanup_events ?env example_config ?w1 =
     [FsExists ''/tmp/mongodb_s3_backup/shop'',
      Log ''info'' ''Removing /tmp/mongodb_s3_backup/shop'',
      Exec ''rm -rf /tmp/mongodb_s3_backup/shop'']"
    by (simp add: cleanup_events_def removal_events_def removeRF_fst denied_stages example_names
        example_env_fields rm_denied_def)
  have "since ?w1 (sync ?env example_config 0 example_world) =
     [Log ''info'' ''Successfully backed up shop'',
      FsExists ''/tmp/mongodb_s3_backup/shop'',
      Log ''info'' ''Removing /tmp/mongodb_s3_backup/shop'',
      Exec ''rm -rf /tmp/mongodb_s3_backup/shop'',
      Callback None]"
    by (simp add: after_stages denied_stages c example_config_fields)
  moreover have "files (sync ?env example_config 0 example_world) =
     [''/tmp/mongodb_s3_backup/shop'',
      ''/tmp/mongodb_s3_backup/shop_2014_3_9_1394323200000.tar.gz'']"
    by (simp add: sync_eq denied_stages finish_eq tmpDirCleanupFns_def series_Cons removeRF_fst
        removeRF_files example_names example_env_fields rm_denied_def)
  ultimately show ?thesis
    by simp
qed

subsection \<open>C2: an error raised outside the upload callback\<close>

text \<open>
  Claim C2. The listener of the domain leaves the domain, runs the cleanup series (the
  backup directory, then, unless that removal failed, the archive) and then throws the
  error; it never invokes the job's callback. In a job whose upload stage is reached and
  raises \<open>e\<close> outside its callback, the events of the job end with the events of that
  listener for \<open>e\<close>, and the job's callback has received only what the upload reported
  through its own callback, if it reported anything.
\<close>

theorem late_fault_cleanup_then_throw:
  "since w (on_error env cfg e w) =
     [DomainExit] @
     removal_events (backupDir env cfg) w @
     (if fst (removeRF env (backupDir env cfg) w) = Called None
      then removal_events (archivePath env cfg) (snd (removeRF env (backupDir env cfg) w))
      else []) @
     [Throw e]
   \<and> (fst (series (tmpDirCleanupFns env cfg) w) = Called None \<and>
        dump_code env cfg = Some 0 \<and> tar_code env cfg = Some 0 \<and> upload_fault env = Some e \<longrightarrow>
        (\<exists>before w'. run env cfg s3 w = before @ since w' (on_error env cfg e w')
           \<and> callbacks before =
               (case upload_result env of Reply err body \<Rightarrow> [err] | NoReply \<Rightarrow> [])
           \<and> callbacks (run env cfg s3 w) = callbacks before))"
proof (intro conjI impI)
  show "since w (on_error env cfg e w) =
     [DomainExit] @
     removal_events (backupDir env cfg) w @
     (if fst (removeRF env (backupDir env cfg) w) = Called None
      then removal_events (archivePath env cfg) (snd (removeRF env (backupDir env cfg) w))
      else []) @
     [Throw e]"
    by (simp add: on_error_since cleanup_events_def)
next
  assume a: "fst (series (tmpDirCleanupFns env cfg) w) = Called None \<and>
        dump_code env cfg = Some 0 \<and> tar_code env cfg = Some 0 \<and> upload_fault env = Some e"
  let ?w1 = "snd (series (stages env cfg s3) w)"
  let ?w2 = "case fst (series (stages env cfg s3) w) of
               Called err \<Rightarrow> finish env cfg err ?w1 | Unanswered \<Rightarrow> ?w1"
  let ?before = "since w ?w1 @
     (case fst (series (stages env cfg s3) w) of
        Called err \<Rightarrow>
          [Log (case err of None \<Rightarrow> ''info'' | Some e \<Rightarrow> ''error'')
               (case err of None \<Rightarrow> ''Successfully backed up '' @ db cfg | Some e \<Rightarrow> error_text e)] @
          cleanup_events env cfg ?w1 @ [Callback err]
      | Unanswered \<Rightarrow> [])"
  have r: "raised ?w1 = Some e"
    using a by (simp add: stages_raised)
  have f: "fst (series (stages env cfg s3) w) =
             (case upload_result env of Reply err body \<Rightarrow> Called err | NoReply \<Rightarrow> Unanswered)"
    using a by (simp add: stages_fst work_fst)
  have 1: "run env cfg s3 w = ?before @ since ?w2 (on_error env cfg e ?w2)"
    by (simp add: run_eq after_stages r on_error_since)
  have 2: "callbacks ?before =
             (case upload_result env of Reply err body \<Rightarrow> [err] | NoReply \<Rightarrow> [])"
    by (simp add: f stages_since split: upload_reply.splits)
  have 3: "callbacks (run env cfg s3 w) = callbacks ?before"
    by (simp add: 1 on_error_since)
  show "\<exists>before w'. run env cfg s3 w = before @ since w' (on_error env cfg e w')
           \<and> callbacks before =
               (case upload_result env of Reply err body \<Rightarrow> [err] | NoReply \<Rightarrow> [])
           \<and> callbacks (run env cfg s3 w) = callbacks before"
    using 1 2 3 by blast
qed

text \<open>
  The example job with an \<open>EPIPE\<close> raised by the upload.
\<close>

theorem late_fault_cleanup_then_throw_witness:
  "(fst (series (tmpDirCleanupFns (example_env\<lparr>upload_fault := Some (Error ''EPIPE'')\<rparr>)
            example_config) example_world) = Called None
    \<and> dump_code (example_env\<lparr>upload_fault := Some (Error ''EPIPE'')\<rparr>) example_config = Some 0
    \<and> tar_code (example_env\<lparr>upload_fault := Some (Error ''EPIPE'')\<rparr>) example_config = Some 0
    \<and> upload_fault (example_env\<lparr>upload_fault := Some (Error ''EPIPE'')\<rparr>) = Some (Error ''EPIPE''))
   \<and> (\<exists>before w'.
         run (example_env\<lparr>upload_fault := Some (Error ''EPIPE'')\<rparr>) example_config 0 example_world =
           before @
           since w' (on_error (example_env\<lparr>upload_fault := Some (Error ''EPIPE'')\<rparr>)
                       example_config (Error ''EPIPE'') w')
         \<and> callbacks before = [None]
         \<and> callbacks (run (example_env\<lparr>upload_fault := Some (Error ''EPIPE'')\<rparr>)
                example_config 0 example_world) = callbacks before)"
proof -
  let ?env = "example_env\<lparr>upload_fault := Some (Error ''EPIPE'')\<rparr>"
  have h: "fst (series (tmpDirCleanupFns ?env example_config) example_world) = Called None
    \<and> dump_code ?env example_config = Some 0
    \<and> tar_code ?env example_config = Some 0
    \<and> upload_fault ?env = Some (Error ''EPIPE'')"
    by (simp add: eval_simps)
  have u: "upload_result ?env = Reply None ''{}''"
    by (simp add: example_env_fields)
  show ?thesis
    using h u late_fault_cleanup_then_throw
      [where env = ?env and cfg = example_config and e = "Error ''EPIPE''"
         and w = example_world and ?s3.0 = 0]
    by simp
qed

text \<open>
  With every \<open>rm -rf\<close> refused, the listener stops its cleanup at the backup directory
  and throws: the archive is never looked at and stays.
\<close>

theorem late_fault_skips_archive_counterexample:
  "since (example_world\<lparr>files :=
            [''/tmp/mongodb_s3_backup/shop'',
             ''/tmp/mongodb_s3_backup/shop_2014_3_9_1394323200000.tar.gz'']\<rparr>)
     (on_error (example_env\<lparr>rm_results := rm_denied\<rparr>) example_config (Error ''EPIPE'')
        (example_world\<lparr>files :=
            [''/tmp/mongodb_s3_backup/shop'',
             ''/tmp/mongodb_s3_backup/shop_2014_3_9_1394323200000.tar.gz'']\<rparr>)) =
     [DomainExit,
      FsExists ''/tmp/mongodb_s3_backup/shop'',
      Log ''info'' ''Removing /tmp/mongodb_s3_backup/shop'',
      Exec ''rm -rf /tmp/mongodb_s3_backup/shop'',
      Throw (Error ''EPIPE'')]
   \<and> files (on_error (example_env\<lparr>rm_results := rm_denied\<rparr>) example_config (Error ''EPIPE'')
        (example_world\<lparr>files :=
            [''/tmp/mongodb_s3_backup/shop'',
             ''/tmp/mongodb_s3_backup/shop_2014_3_9_1394323200000.tar.gz'']\<rparr>)) =
     [''/tmp/mongodb_s3_backup/shop'',
      ''/tmp/mongodb_s3_backup/shop_2014_3_9_1394323200000.tar.gz'']"
  by (simp add: since_eq on_error_trace cleanup_events_def on_error_eq eval_simps)

subsection \<open>C3: a failure of the final cleanup\<close>

text \<open>
  Claim C3. When the first series ends with \<open>err\<close>, the job's callback is invoked exactly
  once, with \<open>err\<close>, whatever the cleanup series does; and after the stages the only
  message logged as an error is that of \<open>err\<close>, if there is one. So a failure of the
  final cleanup never replaces a stage error; it is neither logged nor reported, also
  when there is no stage error.
\<close>

theorem cleanup_failure_not_reported:
  assumes "fst (series (stages env cfg s3) w) = Called err"
  shows "callbacks (run env cfg s3 w) = [err]
         \<and> error_logs (since (snd (series (stages env cfg s3) w)) (sync env cfg s3 w)) =
             (case err of None \<Rightarrow> [] | Some e \<Rightarrow> [error_text e])"
  using assms by (simp add: run_callbacks run_error_logs_after split: option.splits)

text \<open>
  The example job with every \<open>rm -rf\<close> refused: the stages succeed, the cleanup fails, and
  the callback receives no error.
\<close>

theorem cleanup_failure_not_reported_witness:
  "fst (series (stages (example_env\<lparr>rm_results := rm_denied\<rparr>) example_config 0)
          example_world) = Called None
   \<and> callbacks (run (example_env\<lparr>rm_results := rm_denied\<rparr>) example_config 0 example_world) = [None]
   \<and> error_logs
        (since (snd (series (stages (example_env\<lparr>rm_results := rm_denied\<rparr>) example_config 0)
                       example_world))
           (sync (example_env\<lparr>rm_results := rm_denied\<rparr>) example_config 0 example_world)) = []"
  using denied_stages(1) cleanup_failure_not_reported [OF denied_stages(1)]
  by simp

text \<open>
  The callback of the first series, run without a stage error where the backup directory
  exists and its removal is refused: the cleanup series fails with \<open>EACCES\<close>, nothing is
  logged as an error, and the job's callback is invoked without an error.
\<close>

theorem cleanup_failure_swallowed_counterexample:
  "fst (series (tmpDirCleanupFns (example_env\<lparr>rm_results := rm_denied\<rparr>) example_config)
          (example_world\<lparr>files := [''/tmp/mongodb_s3_backup/shop'']\<rparr>)) =
     Called (Some (Error ''EACCES''))
   \<and> since (example_world\<lparr>files := [''/tmp/mongodb_s3_backup/shop'']\<rparr>)
       (finish (example_env\<lparr>rm_results := rm_denied\<rparr>) example_config None
          (example_world\<lparr>files := [''/tmp/mongodb_s3_backup/shop'']\<rparr>)) =
     [Log ''info'' ''Successfully backed up shop'',
      FsExists ''/tmp/mongodb_s3_backup/shop'',
      Log ''info'' ''Removing /tmp/mongodb_s3_backup/shop'',
      Exec ''rm -rf /tmp/mongodb_s3_backup/shop'',
      Callback None]"
  by (simp add: since_eq finish_trace cleanup_events_def eval_simps)

subsection \<open>C4: the order of the stages\<close>

text \<open>
  Claim C4. The stages started by a job are a prefix of Dump, Compress, Upload, in that
  order: Dump is started when the two removals before it did not fail, Compress when
  \<open>mongodump\<close> exited with 0, Upload when \<open>tar\<close> exited with 0. The job's callback is
  invoked at most once, with the first error met (of a removal, of \<open>mongodump\<close>, of
  \<open>tar\<close>, or the one the upload reported), or without an error when there was none.
\<close>

theorem stages_in_order:
  "stages_run (run env cfg s3 w) =
     (if fst (series (tmpDirCleanupFns env cfg) w) \<noteq> Called None then []
      else Dump #
        (if dump_code env cfg \<noteq> Some 0 then []
         else Compress #
           (if tar_code env cfg \<noteq> Some 0 then [] else [Upload])))
   \<and> callbacks (run env cfg s3 w) =
     (case fst (series (tmpDirCleanupFns env cfg) w) of
        Called (Some e) \<Rightarrow> [Some e]
      | Unanswered \<Rightarrow> []
      | Called None \<Rightarrow>
          if dump_code env cfg \<noteq> Some 0
          then [Some (Error (''Mongodump exited with code '' @ js_code (dump_code env cfg)))]
          else if tar_code env cfg \<noteq> Some 0
          then [Some (Error (''Tar exited with code '' @ js_code (tar_code env cfg)))]
          else (case upload_result env of Reply err body \<Rightarrow> [err] | NoReply \<Rightarrow> []))"
  by (simp add: run_stages run_callbacks stages_fst work_fst
      split: outcome.splits option.splits upload_reply.splits)

text \<open>
  The example job runs all three stages and reports no error; when \<open>mongodump\<close> exits
  with 1, only Dump is started and its error is reported.
\<close>

theorem stages_in_order_witness:
  "stages_run (run example_env example_config 0 example_world) = [Dump, Compress, Upload]
   \<and> callbacks (run example_env example_config 0 example_world) = [None]
   \<and> stages_run
       (run (example_env\<lparr>spawn_result := (\<lambda>c a. (example_spawn c a)\<lparr>exit_code := Some 1\<rparr>)\<rparr>)
          example_config 0 example_world) = [Dump]
   \<and> callbacks
       (run (example_env\<lparr>spawn_result := (\<lambda>c a. (example_spawn c a)\<lparr>exit_code := Some 1\<rparr>)\<rparr>)
          example_config 0 example_world) = [Some (Error ''Mongodump exited with code 1'')]"
  using stages_in_order [of example_env example_config 0 example_world]
    stages_in_order
      [of "example_env\<lparr>spawn_result := (\<lambda>c a. (example_spawn c a)\<lparr>exit_code := Some 1\<rparr>)\<rparr>"
          example_config 0 example_world]
  by (simp add: eval_simps js_code_def js_number_def show_nat.simps digit_def)

subsection \<open>C5: the credential flags\<close>




subsection \<open>C6: a failure of the first cleanup\<close>

text \<open>
  Claim C6. Dump is started exactly when the two removals at the head of the first series
  did not fail. When one of them fails with \<open>e\<close>, no stage is started; the events of the
  job are those two removals (the second only if the first did not fail), the log of
  \<open>e\<close> as an error, the final cleanup (the backup directory, then the archive unless
  that removal failed), and the job's callback invoked with \<open>e\<close>; nothing follows
  unless an error was already pending in the domain.
\<close>

theorem preclean_failure_aborts:
  "(Dump \<in> set (stages_run (run env cfg s3 w))) =
     (fst (series (tmpDirCleanupFns env cfg) w) = Called None)
   \<and> (fst (series (tmpDirCleanupFns env cfg) w) = Called (Some e) \<longrightarrow>
        stages_run (run env cfg s3 w) = [] \<and>
        callbacks (run env cfg s3 w) = [Some e] \<and>
        error_logs (since (snd (series (stages env cfg s3) w)) (sync env cfg s3 w)) = [error_text e] \<and>
        (\<exists>rest.
           run env cfg s3 w =
             removal_events (backupDir env cfg) w @
             (if fst (removeRF env (backupDir env cfg) w) = Called None
              then removal_events (archivePath env cfg) (snd (removeRF env (backupDir env cfg) w))
              else []) @
             [Log ''error'' (error_text e)] @
             removal_events (backupDir env cfg) (snd (series (tmpDirCleanupFns env cfg) w)) @
             (if fst (removeRF env (backupDir env cfg)
                    (snd (series (tmpDirCleanupFns env cfg) w))) = Called None
              then removal_events (archivePath env cfg)
                     (snd (removeRF env (backupDir env cfg)
                        (snd (series (tmpDirCleanupFns env cfg) w))))
              else []) @
             [Callback (Some e)] @ rest
           \<and> callbacks rest = [] \<and> stages_run rest = []
           \<and> (raised w = None \<longrightarrow> rest = [])))"
proof -
  have A: "(Dump \<in> set (stages_run (run env cfg s3 w))) =
     (fst (series (tmpDirCleanupFns env cfg) w) = Called None)"
    by (simp add: run_stages)
  have B: "stages_run (run env cfg s3 w) = [] \<and>
        callbacks (run env cfg s3 w) = [Some e] \<and>
        error_logs (since (snd (series (stages env cfg s3) w)) (sync env cfg s3 w)) = [error_text e] \<and>
        (\<exists>rest.
           run env cfg s3 w =
             removal_events (backupDir env cfg) w @
             (if fst (removeRF env (backupDir env cfg) w) = Called None
              then removal_events (archivePath env cfg) (snd (removeRF env (backupDir env cfg) w))
              else []) @
             [Log ''error'' (error_text e)] @
             removal_events (backupDir env cfg) (snd (series (tmpDirCleanupFns env cfg) w)) @
             (if fst (removeRF env (backupDir env cfg)
                    (snd (series (tmpDirCleanupFns env cfg) w))) = Called None
              then removal_events (archivePath env cfg)
                     (snd (removeRF env (backupDir env cfg)
                        (snd (series (tmpDirCleanupFns env cfg) w))))
              else []) @
             [Callback (Some e)] @ rest
           \<and> callbacks rest = [] \<and> stages_run rest = []
           \<and> (raised w = None \<longrightarrow> rest = []))"
    if a: "fst (series (tmpDirCleanupFns env cfg) w) = Called (Some e)"
  proof -
    note r = preclean_failed_run [OF a, of s3]
    have 1: "stages_run (run env cfg s3 w) = []"
      using a by (simp add: run_stages)
    have 2: "callbacks (run env cfg s3 w) = [Some e]"
      using a by (simp add: run_callbacks stages_fst)
    have 3: "error_logs (since (snd (series (stages env cfg s3) w)) (sync env cfg s3 w)) =
               [error_text e]"
      using a by (simp add: run_error_logs_after stages_fst)
    have 4: "(\<exists>rest.
           run env cfg s3 w =
             removal_events (backupDir env cfg) w @
             (if fst (removeRF env (backupDir env cfg) w) = Called None
              then removal_events (archivePath env cfg) (snd (removeRF env (backupDir env cfg) w))
              else []) @
             [Log ''error'' (error_text e)] @
             removal_events (backupDir env cfg) (snd (series (tmpDirCleanupFns env cfg) w)) @
             (if fst (removeRF env (backupDir env cfg)
                    (snd (series (tmpDirCleanupFns env cfg) w))) = Called None
              then removal_events (archivePath env cfg)
                     (snd (removeRF env (backupDir env cfg)
                        (snd (series (tmpDirCleanupFns env cfg) w))))
              else []) @
             [Callback (Some e)] @ rest
           \<and> callbacks rest = [] \<and> stages_run rest = []
           \<and> (raised w = None \<longrightarrow> rest = []))"
      by (rule exI [of _ "case raised w of
            None \<Rightarrow> []
          | Some e' \<Rightarrow>
              [DomainExit] @
              cleanup_events env cfg
                (finish env cfg (Some e) (snd (series (tmpDirCleanupFns env cfg) w))) @
              [Throw e']"])
        (simp add: r cleanup_events_def stage_of_def split: option.splits)
    show ?thesis
      using 1 2 3 4 by blast
  qed
  show ?thesis
    using A B by blast
qed

text \<open>
  The example job where a stale backup directory exists and its removal is refused, and
  the example job itself, which starts with nothing to remove.
\<close>

theorem preclean_failure_aborts_witness:
  "fst (series (tmpDirCleanupFns (example_env\<lparr>rm_results := rm_denied\<rparr>) example_config)
          (example_world\<lparr>files := [''/tmp/mongodb_s3_backup/shop'']\<rparr>)) =
     Called (Some (Error ''EACCES''))
   \<and> stages_run (run (example_env\<lparr>rm_results := rm_denied\<rparr>) example_config 0
         (example_world\<lparr>files := [''/tmp/mongodb_s3_backup/shop'']\<rparr>)) = []
   \<and> callbacks (run (example_env\<lparr>rm_results := rm_denied\<rparr>) example_config 0
         (example_world\<lparr>files := [''/tmp/mongodb_s3_backup/shop'']\<rparr>)) =
       [Some (Error ''EACCES'')]
   \<and> Dump \<in> set (stages_run (run example_env example_config 0 example_world))"
proof -
  let ?env = "example_env\<lparr>rm_results := rm_denied\<rparr>"
  let ?w = "example_world\<lparr>files := [''/tmp/mongodb_s3_backup/shop'']\<rparr>"
  have h: "fst (series (tmpDirCleanupFns ?env example_config) ?w) = Called (Some (Error ''EACCES''))"
    by (simp add: eval_simps)
  have k: "fst (series (tmpDirCleanupFns example_env example_config) example_world) = Called None"
    by (simp add: eval_simps)
  show ?thesis
    using h k preclean_failure_aborts [of example_env example_config 0 example_world]
      preclean_failure_aborts [of ?env example_config 0 ?w "Error ''EACCES''"]
    by simp
qed

text \<open>
  All the events of the job with the stale backup directory: no \<open>spawn\<close> is among them.
\<close>

theorem preclean_failure_counterexample:
  "run (example_env\<lparr>rm_results := rm_denied\<rparr>) example_config 0
     (example_world\<lparr>files := [''/tmp/mongodb_s3_backup/shop'']\<rparr>) =
     [FsExists ''/tmp/mongodb_s3_backup/shop'',
      Log ''info'' ''Removing /tmp/mongodb_s3_backup/shop'',
      Exec ''rm -rf /tmp/mongodb_s3_backup/shop'',
      Log ''error'' ''Error: EACCES'',
      FsExists ''/tmp/mongodb_s3_backup/shop'',
      Log ''info'' ''Removing /tmp/mongodb_s3_backup/shop'',
      Exec ''rm -rf /tmp/mongodb_s3_backup/shop'',
      Callback (Some (Error ''EACCES''))]"
proof -
  let ?env = "example_env\<lparr>rm_results := rm_denied\<rparr>"
  let ?w = "example_world\<lparr>files := [''/tmp/mongodb_s3_backup/shop'']\<rparr>"
  let ?w1 = "snd (series (stages ?env example_config 0) ?w)"
  have f: "fst (series (stages ?env example_config 0) ?w) = Called (Some (Error ''EACCES''))"
    by (simp add: eval_simps)
  have w1: "?w1 = snd (removeRF ?env ''/tmp/mongodb_s3_backup/shop'' ?w)"
    by (simp add: eval_simps)
  have 1: "since ?w ?w1 =
     [FsExists ''/tmp/mongodb_s3_backup/shop'',
      Log ''info'' ''Removing /tmp/mongodb_s3_backup/shop'',
      Exec ''rm -rf /tmp/mongodb_s3_backup/shop'']"
    by (simp add: w1 removal_events_def example_world_fields)
  have 2: "since ?w1 (sync ?env example_config 0 ?w) =
     [Log ''error'' ''Error: EACCES'',
      FsExists ''/tmp/mongodb_s3_backup/shop'',
      Log ''info'' ''Removing /tmp/mongodb_s3_backup/shop'',
      Exec ''rm -rf /tmp/mongodb_s3_backup/shop'',
      Callback (Some (Error ''EACCES''))]"
    unfolding after_stages
    by (simp add: cleanup_events_def error_text_def eval_simps)
  show ?thesis
    unfolding run_eq 1 2 by simp
qed

subsection \<open>C7: removing twice\<close>




subsection \<open>C8: the exit code\<close>

text \<open>
  Claim C8. \<open>mongoDump\<close> and \<open>compressDirectory\<close> hand \<open>null\<close> to their callback exactly
  when the child process exited with 0; otherwise they hand it an error whose message
  ends with the exit code, from which the code can be read back.
\<close>

theorem exit_code_decides:
  "fst (mongoDump env options directory w) =
     (if exit_code (spawn_result env ''mongodump'' (mongoOptions options directory)) = Some 0
      then Called None
      else Called (Some (Error (''Mongodump exited with code '' @
             js_code (exit_code (spawn_result env ''mongodump'' (mongoOptions options directory)))))))
   \<and> fst (compressDirectory env directory inp outp w) =
     (if exit_code (spawn_result env ''tar'' [''-zcf'', outp, inp]) = Some 0
      then Called None
      else Called (Some (Error (''Tar exited with code '' @
             js_code (exit_code (spawn_result env ''tar'' [''-zcf'', outp, inp]))))))
   \<and> (fst (mongoDump env options directory w) = Called None) =
       (exit_code (spawn_result env ''mongodump'' (mongoOptions options directory)) = Some 0)
   \<and> (fst (compressDirectory env directory inp outp w) = Called None) =
       (exit_code (spawn_result env ''tar'' [''-zcf'', outp, inp]) = Some 0)
   \<and> read_code (js_code c) = c"
  by (simp add: mongoDump_fst compressDirectory_fst read_js_code)

text \<open>
  Exit codes 0, 1 and 2 in the example job.
\<close>

theorem exit_code_decides_witness:
  "fst (mongoDump example_env example_config ''/tmp/mongodb_s3_backup'' example_world) = Called None
   \<and> fst (mongoDump
          (example_env\<lparr>spawn_result := (\<lambda>c a. (example_spawn c a)\<lparr>exit_code := Some 1\<rparr>)\<rparr>)
          example_config ''/tmp/mongodb_s3_backup'' example_world) =
       Called (Some (Error ''Mongodump exited with code 1''))
   \<and> fst (compressDirectory
          (example_env\<lparr>spawn_result := (\<lambda>c a. (example_spawn c a)\<lparr>exit_code := Some 2\<rparr>)\<rparr>)
          ''/tmp/mongodb_s3_backup'' ''shop'' ''shop.tar.gz'' example_world) =
       Called (Some (Error ''Tar exited with code 2''))
   \<and> read_code ''2'' = Some 2"
  using exit_code_decides
      [of example_env example_config "''/tmp/mongodb_s3_backup''" example_world
          "''shop''" "''shop.tar.gz''" "Some 2"]
    exit_code_decides
      [of "example_env\<lparr>spawn_result := (\<lambda>c a. (example_spawn c a)\<lparr>exit_code := Some 1\<rparr>)\<rparr>"
          example_config "''/tmp/mongodb_s3_backup''" example_world
          "''shop''" "''shop.tar.gz''" "Some 2"]
    exit_code_decides
      [of "example_env\<lparr>spawn_result := (\<lambda>c a. (example_spawn c a)\<lparr>exit_code := Some 2\<rparr>)\<rparr>"
          example_config "''/tmp/mongodb_s3_backup''" example_world
          "''shop''" "''shop.tar.gz''" "Some 2"]
  by (simp add: example_env_fields example_spawn_def js_code_def js_number_def show_nat.simps
      digit_def)

subsection \<open>C9: the exclusion flags\<close>



subsection \<open>C10: sendToS3 changes its options\<close>

text \<open>
  Claim C10. The events of \<open>sendToS3\<close> are: the storage client is created from the
  options without \<open>destination\<close>, the log line, and the upload request with that client,
  under the prefix that \<open>destination\<close> had (the root when it had none), followed by the
  two log lines of a successful upload. So \<open>destination\<close> is read, then deleted, then the
  client is created. The deletion is in the caller's object: after the call that object
  has no \<open>destination\<close>, every other object is as it was, and a later call with the same
  object uploads under the root.
\<close>

theorem sendToS3_deletes_destination:
  "since w (snd (sendToS3 env options directory target w)) =
     [CreateClient ((heap w options)\<lparr>destination := None\<rparr>),
      Log ''info'' (''Attemping to upload '' @ target @ '' to the '' @ bucket (heap w options)
                     @ '' s3 bucket''),
      MultiPartUpload
        \<lparr>client = (heap w options)\<lparr>destination := None\<rparr>,
         objectName = path_join env
           (case destination (heap w options) of
              Some d \<Rightarrow> if d = [] then ''/'' else d | None \<Rightarrow> ''/'') target,
         headers = (if encrypt (heap w options)
                    then [(''x-amz-server-side-encryption'', ''AES256'')] else []),
         sourceFile = path_join env directory target,
         partSize = 10485760,
         maxRetries = 2\<rparr>] @
     (case upload_result env of
        Reply None body \<Rightarrow> [Log ''info'' ''Successfully uploaded to s3'', Log ''info'' body]
      | Reply (Some err) body \<Rightarrow> []
      | NoReply \<Rightarrow> [])
   \<and> heap (snd (sendToS3 env options directory target w)) =
     (heap w)(options := (heap w options)\<lparr>destination := None\<rparr>)
   \<and> destination (heap (snd (sendToS3 env options directory target w)) options) = None
   \<and> map objectName (uploads (since w (snd (sendToS3 env options directory target w)))) =
       [path_join env
          (case destination (heap w options) of
             Some d \<Rightarrow> if d = [] then ''/'' else d | None \<Rightarrow> ''/'') target]
   \<and> map objectName
       (uploads (since (snd (sendToS3 env options directory target w))
          (snd (sendToS3 env' options directory' target'
             (snd (sendToS3 env options directory target w)))))) =
       [path_join env' ''/'' target']"
proof -
  have 1: "since w (snd (sendToS3 env options directory target w)) =
     [CreateClient ((heap w options)\<lparr>destination := None\<rparr>),
      Log ''info'' (''Attemping to upload '' @ target @ '' to the '' @ bucket (heap w options)
                     @ '' s3 bucket''),
      MultiPartUpload
        \<lparr>client = (heap w options)\<lparr>destination := None\<rparr>,
         objectName = path_join env
           (case destination (heap w options) of
              Some d \<Rightarrow> if d = [] then ''/'' else d | None \<Rightarrow> ''/'') target,
         headers = (if encrypt (heap w options)
                    then [(''x-amz-server-side-encryption'', ''AES256'')] else []),
         sourceFile = path_join env directory target,
         partSize = 10485760,
         maxRetries = 2\<rparr>] @
     (case upload_result env of
        Reply None body \<Rightarrow> [Log ''info'' ''Successfully uploaded to s3'', Log ''info'' body]
      | Reply (Some err) body \<Rightarrow> []
      | NoReply \<Rightarrow> [])"
    by (rule sendToS3_events)
  have 2: "heap (snd (sendToS3 env options directory target w)) =
     (heap w)(options := (heap w options)\<lparr>destination := None\<rparr>)"
    by (rule sendToS3_heap)
  have 3: "map objectName (uploads (since w (snd (sendToS3 env options directory target w)))) =
       [path_join env
          (case destination (heap w options) of
             Some d \<Rightarrow> if d = [] then ''/'' else d | None \<Rightarrow> ''/'') target]"
    by (simp add: sendToS3_uploads)
  have 4: "map objectName
       (uploads (since (snd (sendToS3 env options directory target w))
          (snd (sendToS3 env' options directory' target'
             (snd (sendToS3 env options directory target w)))))) =
       [path_join env' ''/'' target']"
    by (simp add: sendToS3_heap sendToS3_uploads)
  show ?thesis
    using 1 2 3 4 by simp
qed

text \<open>
  Two uploads with the configuration object of the example job: the events of the first,
  and the object names of both.
\<close>

theorem sendToS3_deletes_destination_witness:
  "destination (heap example_world 0) = Some ''/mongo''
   \<and> since example_world
       (snd (sendToS3 example_env 0 ''/tmp/mongodb_s3_backup'' ''a.tar.gz'' example_world)) =
       [CreateClient
          \<lparr>key = ''k'', secret = ''s'', bucket = ''backups'', destination = None,
           encrypt = False\<rparr>,
        Log ''info'' ''Attemping to upload a.tar.gz to the backups s3 bucket'',
        MultiPartUpload
          \<lparr>client =
             \<lparr>key = ''k'', secret = ''s'', bucket = ''backups'', destination = None,
              encrypt = False\<rparr>,
           objectName = ''/mongo/a.tar.gz'',
           headers = [],
           sourceFile = ''/tmp/mongodb_s3_backup/a.tar.gz'',
           partSize = 10485760,
           maxRetries = 2\<rparr>,
        Log ''info'' ''Successfully uploaded to s3'',
        Log ''info'' ''{}'']
   \<and> destination (heap (snd (sendToS3 example_env 0 ''/tmp/mongodb_s3_backup'' ''a.tar.gz''
                                 example_world)) 0) = None
   \<and> map objectName
       (uploads (since (snd (sendToS3 example_env 0 ''/tmp/mongodb_s3_backup'' ''a.tar.gz''
                               example_world))
          (snd (sendToS3 example_env 0 ''/tmp/mongodb_s3_backup'' ''b.tar.gz''
             (snd (sendToS3 example_env 0 ''/tmp/mongodb_s3_backup'' ''a.tar.gz''
                     example_world)))))) =
       [''/b.tar.gz'']"
  using sendToS3_deletes_destination
      [where env = example_env and options = 0 and directory = "''/tmp/mongodb_s3_backup''"
         and target = "''a.tar.gz''" and w = example_world and env' = example_env
         and directory' = "''/tmp/mongodb_s3_backup''" and target' = "''b.tar.gz''"]
  by (simp add: example_env_fields example_world_fields example_s3_def example_join_def)

end
